theory Spec2Isabelle
  imports Main
begin

section \<open>The i18n module \<open>SonarI18n\<close>: data model\<close>

text \<open>
  The module is the class \<open>SonarI18n\<close> (second document of \<open>src/marquee.ts\<close>).
  A string is a list of 8-bit characters: ASCII text is exact, and a character beyond
  ASCII in a literal of the source is written as the bytes of its UTF-8 encoding.
  The two display-only fields \<open>nativeName\<close> and
  \<open>flag\<close> of \<open>LanguageConfig\<close> hold non-ASCII text, are read only when the HTML of the
  language switcher is built, and are left out of the record.
\<close>

datatype direction = Ltr | Rtl

record LanguageConfig =
  code :: string
  name :: string
  direction :: direction
  dateFormat :: string
  currency :: string
  enabled :: bool

text \<open>The array \<open>languages\<close> of \<open>initializeLanguages\<close>, in source order.\<close>

definition languages :: "LanguageConfig list" where
  "languages =
    [\<lparr>code = ''en'', name = ''English'', direction = Ltr,
       dateFormat = ''MM/DD/YYYY'', currency = ''USD'', enabled = True\<rparr>,
     \<lparr>code = ''es'', name = ''Spanish'', direction = Ltr,
       dateFormat = ''DD/MM/YYYY'', currency = ''EUR'', enabled = True\<rparr>,
     \<lparr>code = ''fr'', name = ''French'', direction = Ltr,
       dateFormat = ''DD/MM/YYYY'', currency = ''EUR'', enabled = True\<rparr>,
     \<lparr>code = ''de'', name = ''German'', direction = Ltr,
       dateFormat = ''DD.MM.YYYY'', currency = ''EUR'', enabled = True\<rparr>,
     \<lparr>code = ''ja'', name = ''Japanese'', direction = Ltr,
       dateFormat = ''YYYY/MM/DD'', currency = ''JPY'', enabled = True\<rparr>,
     \<lparr>code = ''zh'', name = ''Chinese (Simplified)'', direction = Ltr,
       dateFormat = ''YYYY/MM/DD'', currency = ''CNY'', enabled = True\<rparr>,
     \<lparr>code = ''ar'', name = ''Arabic'', direction = Rtl,
       dateFormat = ''DD/MM/YYYY'', currency = ''SAR'', enabled = False\<rparr>]"

text \<open>
  \<open>languages.forEach(lang => this.languageConfigs.set(lang.code, lang))\<close>: the map is
  filled once by the constructor and never written again.
\<close>

definition languageConfigs :: "string \<rightharpoonup> LanguageConfig" where
  "languageConfigs = foldl (\<lambda>m lang. m(code lang \<mapsto> lang)) Map.empty languages"

text \<open>The private field \<open>defaultLanguage = 'en'\<close> is never assigned after construction.\<close>

definition defaultLanguage :: string where
  "defaultLanguage = ''en''"

text \<open>\<open>isLanguageSupported\<close>: \<open>config ? config.enabled : false\<close>.\<close>

definition isLanguageSupported :: "string \<Rightarrow> bool" where
  "isLanguageSupported language =
     (case languageConfigs language of
        Some config \<Rightarrow> enabled config
      | None \<Rightarrow> False)"

section \<open>Language detection\<close>

text \<open>The exceptions of the browser that the model names.\<close>

datatype js_error = SyntaxError | SecurityError | QuotaExceededError | Error string


text \<open>
  \<open>String.prototype.split\<close> with a one-character separator: the pieces between the
  separators, empty pieces included; the empty string gives one empty piece.
\<close>

fun split_js :: "char \<Rightarrow> string \<Rightarrow> string list" where
  "split_js sep [] = [[]]"
| "split_js sep (c # cs) =
     (if c = sep then [] # split_js sep cs
      else (case split_js sep cs of
              w # ws \<Rightarrow> (c # w) # ws
            | [] \<Rightarrow> [[c]]))"

text \<open>\<open>path.split('/').filter(Boolean)\<close>: the non-empty segments.\<close>

definition path_segments :: "string \<Rightarrow> string list" where
  "path_segments p = filter (\<lambda>seg. seg \<noteq> []) (split_js CHR ''/'' p)"

text \<open>\<open>extractLanguageFromPath\<close>, on the given \<open>window.location.pathname\<close>.\<close>

definition extractLanguageFromPath :: "string \<Rightarrow> string option" where
  "extractLanguageFromPath p =
     (case path_segments p of
        [] \<Rightarrow> None
      | potentialLang # _ \<Rightarrow>
          if length potentialLang = 2 \<and> isLanguageSupported potentialLang
          then Some potentialLang else None)"

text \<open>
  The guard \<open>x && this.isLanguageSupported(x)\<close> on a value that is a string or
  \<open>null\<close>: \<open>null\<close> and the empty string are falsy.
\<close>

fun truthy_supported :: "string option \<Rightarrow> string option" where
  "truthy_supported None = None"
| "truthy_supported (Some l) = (if l \<noteq> [] \<and> isLanguageSupported l then Some l else None)"





definition spec_first_segment :: "string \<Rightarrow> string" where
  "spec_first_segment p =
     takeWhile (\<lambda>c. c \<noteq> CHR ''/'') (dropWhile (\<lambda>c. c = CHR ''/'') p)"




section \<open>Translation trees and engine state\<close>

text \<open>
  A translation tree is the interface \<open>Translation\<close>: an object whose values are
  strings or further objects. An object is an association list of its own keys (keys
  distinct), read with \<open>map_of\<close>. \<open>Other\<close> stands for every JavaScript value that is
  neither a string nor such an object (a number, a boolean, \<open>null\<close>, a function):
  unchecked JSON can hold one, and so can a lookup in an object literal.
  The operator \<open>in\<close> of \<open>getTranslation\<close> also sees the properties inherited from
  \<open>Object.prototype\<close>; all of them are functions (or \<open>null\<close>), on which the walk
  returns \<open>null\<close> exactly as it does on a missing key, so own keys are all that is
  modelled.
\<close>

datatype translation = Leaf string | Tree "(string \<times> translation) list" | Other

text \<open>The detail of a \<open>languageChanged\<close> event.\<close>

record language_event =
  ev_language :: string
  ev_config :: "LanguageConfig option"
  ev_isRTL :: bool

text \<open>The fields of the class that change after construction.\<close>

record i18n =
  currentLanguage :: string
  translationTable :: "string \<rightharpoonup> translation"
  isRTL :: bool
  initialized :: bool

text \<open>
  The engine together with the part of the browser it reads and writes:
  \<open>window.location\<close> (\<open>pathname\<close>, \<open>search\<close>, \<open>hash\<close>), the item \<open>sonar_language\<close>
  of \<open>localStorage\<close>, \<open>document.documentElement.dir\<close> and \<open>.lang\<close>, the events
  dispatched on \<open>document\<close> (oldest first), the URLs passed to \<open>fetch\<close> (oldest
  first) and the console. Two flags say how the browser answers: whether
  \<open>history.replaceState\<close> throws and whether \<open>localStorage.setItem\<close> throws.
\<close>

record browser = i18n +
  pathname :: string
  search :: string
  hash :: string
  sonar_language :: "string option"
  html_dir :: "direction option"
  html_lang :: string
  dispatched :: "language_event list"
  requests :: "string list"
  console :: "string list"
  replaceState_throws :: bool
  setItem_throws :: bool

text \<open>\<open>getLocalizedURL(path, language?)\<close>: \<open>language || this.currentLanguage\<close>.\<close>

definition getLocalizedURL :: "'a i18n_scheme \<Rightarrow> string \<Rightarrow> string option \<Rightarrow> string" where
  "getLocalizedURL s path language =
     (let lang = (case language of
                    None \<Rightarrow> currentLanguage s
                  | Some l \<Rightarrow> if l \<noteq> [] then l else currentLanguage s)
      in if lang = defaultLanguage then path else ''/'' @ lang @ path)"

section \<open>The translation store\<close>

text \<open>The three tables of \<open>getInlineTranslations\<close>.\<close>

definition inline_en :: translation where
  "inline_en = Tree
    [(''nav'', Tree
       [(''home'', Leaf (''Home'')),
        (''work'', Leaf (''Work'')),
        (''studio'', Leaf (''Studio'')),
        (''team'', Leaf (''Team'')),
        (''blog'', Leaf (''Blog'')),
        (''contact'', Leaf (''Contact''))]),
     (''hero'', Tree
       [(''title'', Leaf (''Crafting Exceptional Sound Experiences'')),
        (''subtitle'', Leaf (''Premium Sound Design'')),
        (''description'', Leaf (''We create immersive audio experiences for film, television, and new media.'')),
        (''cta'', Leaf (''Explore Our Work''))]),
     (''common'', Tree
       [(''loading'', Leaf (''Loading...'')),
        (''read_more'', Leaf (''Read More'')),
        (''learn_more'', Leaf (''Learn More'')),
        (''contact_us'', Leaf (''Contact Us'')),
        (''get_started'', Leaf (''Get Started'')),
        (''view_project'', Leaf (''View Project'')),
        (''play_video'', Leaf (''Play Video'')),
        (''close'', Leaf (''Close'')),
        (''next'', Leaf (''Next'')),
        (''previous'', Leaf (''Previous'')),
        (''search'', Leaf (''Search'')),
        (''filter'', Leaf (''Filter'')),
        (''sort'', Leaf (''Sort'')),
        (''all'', Leaf (''All''))]),
     (''footer'', Tree
       [(''description'', Leaf (''Crafting exceptional sound experiences for film, television, and new media.'')),
        (''navigation'', Leaf (''Navigation'')),
        (''services'', Leaf (''Services'')),
        (''connect'', Leaf (''Connect'')),
        (''copyright'', Leaf ([CHR 0xC2, CHR 0xAC, CHR 0xC2, CHR 0xA9] @ '' 2024 Sonar Music. All rights reserved.'')),
        (''privacy'', Leaf (''Privacy Policy'')),
        (''terms'', Leaf (''Terms of Service''))])]"

definition inline_es :: translation where
  "inline_es = Tree
    [(''nav'', Tree
       [(''home'', Leaf (''Inicio'')),
        (''work'', Leaf (''Trabajo'')),
        (''studio'', Leaf (''Estudio'')),
        (''team'', Leaf (''Equipo'')),
        (''blog'', Leaf (''Blog'')),
        (''contact'', Leaf (''Contacto''))]),
     (''hero'', Tree
       [(''title'', Leaf (''Creando Experiencias Sonoras Excepcionales'')),
        (''subtitle'', Leaf (''Dise'' @ [CHR 0xE2, CHR 0x88, CHR 0x9A, CHR 0xC2, CHR 0xB1] @ ''o de Sonido Premium'')),
        (''description'', Leaf (''Creamos experiencias de audio inmersivas para cine, televisi'' @ [CHR 0xE2, CHR 0x88, CHR 0x9A, CHR 0xE2, CHR 0x89, CHR 0xA5] @ ''n y nuevos medios.'')),
        (''cta'', Leaf (''Explora Nuestro Trabajo''))]),
     (''common'', Tree
       [(''loading'', Leaf (''Cargando...'')),
        (''read_more'', Leaf (''Leer M'' @ [CHR 0xE2, CHR 0x88, CHR 0x9A, CHR 0xC2, CHR 0xB0] @ ''s'')),
        (''learn_more'', Leaf (''Aprende M'' @ [CHR 0xE2, CHR 0x88, CHR 0x9A, CHR 0xC2, CHR 0xB0] @ ''s'')),
        (''contact_us'', Leaf (''Cont'' @ [CHR 0xE2, CHR 0x88, CHR 0x9A, CHR 0xC2, CHR 0xB0] @ ''ctanos'')),
        (''get_started'', Leaf (''Comenzar'')),
        (''view_project'', Leaf (''Ver Proyecto'')),
        (''play_video'', Leaf (''Reproducir Video'')),
        (''close'', Leaf (''Cerrar'')),
        (''next'', Leaf (''Siguiente'')),
        (''previous'', Leaf (''Anterior'')),
        (''search'', Leaf (''Buscar'')),
        (''filter'', Leaf (''Filtrar'')),
        (''sort'', Leaf (''Ordenar'')),
        (''all'', Leaf (''Todos''))]),
     (''footer'', Tree
       [(''description'', Leaf (''Creando experiencias sonoras excepcionales para cine, televisi'' @ [CHR 0xE2, CHR 0x88, CHR 0x9A, CHR 0xE2, CHR 0x89, CHR 0xA5] @ ''n y nuevos medios.'')),
        (''navigation'', Leaf (''Navegaci'' @ [CHR 0xE2, CHR 0x88, CHR 0x9A, CHR 0xE2, CHR 0x89, CHR 0xA5] @ ''n'')),
        (''services'', Leaf (''Servicios'')),
        (''connect'', Leaf (''Conectar'')),
        (''copyright'', Leaf ([CHR 0xC2, CHR 0xAC, CHR 0xC2, CHR 0xA9] @ '' 2024 Sonar Music. Todos los derechos reservados.'')),
        (''privacy'', Leaf (''Pol'' @ [CHR 0xE2, CHR 0x88, CHR 0x9A, CHR 0xE2, CHR 0x89, CHR 0xA0] @ ''tica de Privacidad'')),
        (''terms'', Leaf (''T'' @ [CHR 0xE2, CHR 0x88, CHR 0x9A, CHR 0xC2, CHR 0xA9] @ ''rminos de Servicio''))])]"

definition inline_fr :: translation where
  "inline_fr = Tree
    [(''nav'', Tree
       [(''home'', Leaf (''Accueil'')),
        (''work'', Leaf (''Travail'')),
        (''studio'', Leaf (''Studio'')),
        (''team'', Leaf ([CHR 0xE2, CHR 0x88, CHR 0x9A, CHR 0xC3, CHR 0xA2] @ ''quipe'')),
        (''blog'', Leaf (''Blog'')),
        (''contact'', Leaf (''Contact''))]),
     (''hero'', Tree
       [(''title'', Leaf (''Cr'' @ [CHR 0xE2, CHR 0x88, CHR 0x9A, CHR 0xC2, CHR 0xA9] @ ''er des Exp'' @ [CHR 0xE2, CHR 0x88, CHR 0x9A, CHR 0xC2, CHR 0xA9] @ ''riences Sonores Exceptionnelles'')),
        (''subtitle'', Leaf (''Design Sonore Premium'')),
        (''description'', Leaf (''Nous cr'' @ [CHR 0xE2, CHR 0x88, CHR 0x9A, CHR 0xC2, CHR 0xA9] @ ''ons des exp'' @ [CHR 0xE2, CHR 0x88, CHR 0x9A, CHR 0xC2, CHR 0xA9] @ ''riences audio immersives pour le cin'' @ [CHR 0xE2, CHR 0x88, CHR 0x9A, CHR 0xC2, CHR 0xA9] @ ''ma, la t'' @ [CHR 0xE2, CHR 0x88, CHR 0x9A, CHR 0xC2, CHR 0xA9] @ ''l'' @ [CHR 0xE2, CHR 0x88, CHR 0x9A, CHR 0xC2, CHR 0xA9] @ ''vision et les nouveaux m'' @ [CHR 0xE2, CHR 0x88, CHR 0x9A, CHR 0xC2, CHR 0xA9] @ ''dias.'')),
        (''cta'', Leaf (''Explorez Notre Travail''))]),
     (''common'', Tree
       [(''loading'', Leaf (''Chargement...'')),
        (''read_more'', Leaf (''Lire Plus'')),
        (''learn_more'', Leaf (''En Savoir Plus'')),
        (''contact_us'', Leaf (''Contactez-nous'')),
        (''get_started'', Leaf (''Commencer'')),
        (''view_project'', Leaf (''Voir le Projet'')),
        (''play_video'', Leaf (''Lire la Vid'' @ [CHR 0xE2, CHR 0x88, CHR 0x9A, CHR 0xC2, CHR 0xA9] @ ''o'')),
        (''close'', Leaf (''Fermer'')),
        (''next'', Leaf (''Suivant'')),
        (''previous'', Leaf (''Pr'' @ [CHR 0xE2, CHR 0x88, CHR 0x9A, CHR 0xC2, CHR 0xA9] @ ''c'' @ [CHR 0xE2, CHR 0x88, CHR 0x9A, CHR 0xC2, CHR 0xA9] @ ''dent'')),
        (''search'', Leaf (''Rechercher'')),
        (''filter'', Leaf (''Filtrer'')),
        (''sort'', Leaf (''Trier'')),
        (''all'', Leaf (''Tous''))]),
     (''footer'', Tree
       [(''description'', Leaf (''Cr'' @ [CHR 0xE2, CHR 0x88, CHR 0x9A, CHR 0xC2, CHR 0xA9] @ ''er des exp'' @ [CHR 0xE2, CHR 0x88, CHR 0x9A, CHR 0xC2, CHR 0xA9] @ ''riences sonores exceptionnelles pour le cin'' @ [CHR 0xE2, CHR 0x88, CHR 0x9A, CHR 0xC2, CHR 0xA9] @ ''ma, la t'' @ [CHR 0xE2, CHR 0x88, CHR 0x9A, CHR 0xC2, CHR 0xA9] @ ''l'' @ [CHR 0xE2, CHR 0x88, CHR 0x9A, CHR 0xC2, CHR 0xA9] @ ''vision et les nouveaux m'' @ [CHR 0xE2, CHR 0x88, CHR 0x9A, CHR 0xC2, CHR 0xA9] @ ''dias.'')),
        (''navigation'', Leaf (''Navigation'')),
        (''services'', Leaf (''Services'')),
        (''connect'', Leaf (''Se Connecter'')),
        (''copyright'', Leaf ([CHR 0xC2, CHR 0xAC, CHR 0xC2, CHR 0xA9] @ '' 2024 Sonar Music. Tous droits r'' @ [CHR 0xE2, CHR 0x88, CHR 0x9A, CHR 0xC2, CHR 0xA9] @ ''serv'' @ [CHR 0xE2, CHR 0x88, CHR 0x9A, CHR 0xC2, CHR 0xA9] @ ''s.'')),
        (''privacy'', Leaf (''Politique de Confidentialit'' @ [CHR 0xE2, CHR 0x88, CHR 0x9A, CHR 0xC2, CHR 0xA9])),
        (''terms'', Leaf (''Conditions de Service''))])]"

text \<open>
  \<open>translations[language] || translations.en\<close>. The lookup is in an object literal,
  so a name inherited from \<open>Object.prototype\<close> finds a function (or the prototype),
  which is truthy and is returned as it is.
\<close>

definition object_prototype_names :: "string list" where
  "object_prototype_names =
     [''constructor'', ''__proto__'', ''hasOwnProperty'', ''isPrototypeOf'',
      ''propertyIsEnumerable'', ''toLocaleString'', ''toString'', ''valueOf'',
      ''__defineGetter__'', ''__defineSetter__'', ''__lookupGetter__'', ''__lookupSetter__'']"

definition getInlineTranslations :: "string \<Rightarrow> translation" where
  "getInlineTranslations language =
     (if language = ''en'' then inline_en
      else if language = ''es'' then inline_es
      else if language = ''fr'' then inline_fr
      else if language \<in> set object_prototype_names then Other
      else inline_en)"

text \<open>
  What the fetch collaborator answers to one request: the promise of \<open>fetch\<close> is
  rejected, the response is not \<open>ok\<close>, \<open>response.json()\<close> is rejected, or the body
  parses to a value.
\<close>

datatype fetch_outcome = NetworkFailure | NotOk | InvalidJson | Json translation

text \<open>
  \<open>loadLanguageTranslations\<close> in two parts, split where it first waits: the call of
  \<open>fetch\<close>, and what it does once the answer is there. Every failure is caught inside
  (a warning is logged), so the function has no error result.
\<close>

definition load_request :: "string \<Rightarrow> browser \<Rightarrow> browser" where
  "load_request language st =
     st\<lparr>requests := requests st @ [''/src/data/i18n/'' @ language @ ''.json'']\<rparr>"

definition load_settle :: "string \<Rightarrow> fetch_outcome \<Rightarrow> browser \<Rightarrow> browser" where
  "load_settle language outcome st =
     (case outcome of
        Json tree \<Rightarrow> st\<lparr>translationTable := (translationTable st)(language \<mapsto> tree)\<rparr>
      | _ \<Rightarrow> st\<lparr>translationTable :=
                   (translationTable st)(language \<mapsto> getInlineTranslations language),
                console := console st @ [''Could not load translations for '' @ language @ '':'']\<rparr>)"

definition loadLanguageTranslations :: "string \<Rightarrow> fetch_outcome \<Rightarrow> browser \<Rightarrow> browser" where
  "loadLanguageTranslations language outcome st =
     load_settle language outcome (load_request language st)"

section \<open>The resolver\<close>

text \<open>
  The loop of \<open>getTranslation\<close>: \<open>current\<close> must be an object that has the key.
\<close>

fun walk :: "translation \<Rightarrow> string list \<Rightarrow> translation option" where
  "walk current [] = Some current"
| "walk current (k # ks) =
     (case current of
        Tree kvs \<Rightarrow> (case map_of kvs k of
                       Some child \<Rightarrow> walk child ks
                     | None \<Rightarrow> None)
      | _ \<Rightarrow> None)"

definition getTranslation :: "'a i18n_scheme \<Rightarrow> string \<Rightarrow> string \<Rightarrow> string option" where
  "getTranslation s key language =
     (case translationTable s language of
        None \<Rightarrow> None
      | Some tree \<Rightarrow>
          (case walk tree (split_js CHR ''.'' key) of
             Some (Leaf str) \<Rightarrow> Some str
           | _ \<Rightarrow> None))"

text \<open>\<open>!translation\<close> on a string or \<open>null\<close>: true for \<open>null\<close> and for the empty string.\<close>

fun falsy :: "string option \<Rightarrow> bool" where
  "falsy None = True"
| "falsy (Some str) = (str = [])"

text \<open>
  The first half of \<open>t\<close>: active language, then default language, then the key.
\<close>

definition resolve_text :: "'a i18n_scheme \<Rightarrow> string \<Rightarrow> string" where
  "resolve_text s key =
     (let translation = getTranslation s key (currentLanguage s);
          translation = (if falsy translation \<and> currentLanguage s \<noteq> defaultLanguage
                         then getTranslation s key defaultLanguage else translation)
      in case translation of
           None \<Rightarrow> key
         | Some str \<Rightarrow> if str = [] then key else str)"

section \<open>Regular expressions of the placeholder substitution\<close>

text \<open>
  \<open>t\<close> builds \<open>new RegExp(`{{\\s*${placeholder}\\s*}}`, 'g')\<close> from the placeholder name
  as it is. The model of \<open>RegExp\<close> covers the patterns that are sequences of
  one-character atoms, each with an optional quantifier \<open>*\<close>, \<open>+\<close> or \<open>?\<close> (greedy, or
  lazy with a further \<open>?\<close>): a plain character, \<open>.\<close>, a class escape \<open>\s \S \d \D \w \W\<close>,
  a control escape \<open>\t \n \v \f \r\<close>, or an escaped syntax character. As in browsers
  (without the flag \<open>u\<close>), \<open>{\<close>, \<open>}\<close> and \<open>]\<close> are plain characters unless \<open>{\<close> starts a
  braced quantifier. For such a pattern \<open>RegExp_new\<close> answers \<open>Compiled\<close>, or
  \<open>Invalid\<close> where the constructor throws a \<open>SyntaxError\<close> (a quantifier with nothing
  to repeat, a backslash that ends the pattern). A pattern with any other construct
  (groups, alternatives, classes, anchors, braced quantifiers, further escapes) is
  \<open>Beyond\<close> the model: nothing is said about it. The model is one of ASCII texts: the white space of
  \<open>\s\<close> and the line terminators that \<open>.\<close> leaves out are the ASCII ones, and
  nothing is said about a text with other characters.
\<close>

datatype atom = Lit char | AnyChar | Space | NotSpace | Digit | NotDigit | WordChar | NotWordChar

datatype quant = Once | Star bool | Plus bool | Opt bool

datatype regexp = Compiled "(atom \<times> quant) list" | Invalid | Beyond

definition backslash :: char where
  "backslash = CHR 0x5C"

definition is_space :: "char \<Rightarrow> bool" where
  "is_space c \<longleftrightarrow> c \<in> {CHR 0x09, CHR 0x0A, CHR 0x0B, CHR 0x0C, CHR 0x0D, CHR '' ''}"

definition is_digit :: "char \<Rightarrow> bool" where
  "is_digit c \<longleftrightarrow> c \<in> set ''0123456789''"

definition is_word :: "char \<Rightarrow> bool" where
  "is_word c \<longleftrightarrow>
     c \<in> set ''abcdefghijklmnopqrstuvwxyzABCDEFGHIJKLMNOPQRSTUVWXYZ0123456789_''"

definition syntax_chars :: "char list" where
  "syntax_chars = ''^$.*+?()[]{}|/'' @ [backslash]"

text \<open>The atom of \<open>\\<close> followed by \<open>e\<close>, where the model has one.\<close>

definition escape_atom :: "char \<Rightarrow> atom option" where
  "escape_atom e =
     (if e = CHR ''s'' then Some Space
      else if e = CHR ''S'' then Some NotSpace
      else if e = CHR ''d'' then Some Digit
      else if e = CHR ''D'' then Some NotDigit
      else if e = CHR ''w'' then Some WordChar
      else if e = CHR ''W'' then Some NotWordChar
      else if e = CHR ''t'' then Some (Lit (CHR 0x09))
      else if e = CHR ''n'' then Some (Lit (CHR 0x0A))
      else if e = CHR ''v'' then Some (Lit (CHR 0x0B))
      else if e = CHR ''f'' then Some (Lit (CHR 0x0C))
      else if e = CHR ''r'' then Some (Lit (CHR 0x0D))
      else if e \<in> set syntax_chars then Some (Lit e)
      else None)"

text \<open>
  The quantifier that follows an atom, with the number of characters it takes.
  \<open>None\<close>: a \<open>{\<close> before a digit, which may be a braced quantifier.
\<close>

fun take_quant :: "string \<Rightarrow> (quant \<times> nat) option" where
  "take_quant [] = Some (Once, 0)"
| "take_quant (q # rest) =
     (let lazy = (case rest of [] \<Rightarrow> False | l # _ \<Rightarrow> l = CHR ''?'');
          n = (if lazy then 2 else 1)
      in if q = CHR ''*'' then Some (Star (\<not> lazy), n)
         else if q = CHR ''+'' then Some (Plus (\<not> lazy), n)
         else if q = CHR ''?'' then Some (Opt (\<not> lazy), n)
         else if q = CHR ''{'' \<and> (case rest of [] \<Rightarrow> False | d # _ \<Rightarrow> is_digit d) then None
         else Some (Once, 0))"

text \<open>
  The atom that starts with the character \<open>c\<close>, followed by \<open>cs\<close>, with the number of
  characters of \<open>cs\<close> it takes; or the reason to stop.
\<close>

definition atom_at :: "char \<Rightarrow> string \<Rightarrow> (regexp + atom) \<times> nat" where
  "atom_at c cs =
     (if c = backslash then
        (case cs of
           [] \<Rightarrow> (Inl Invalid, 0)
         | e # _ \<Rightarrow> (case escape_atom e of
                        Some a \<Rightarrow> (Inr a, 1)
                      | None \<Rightarrow> (Inl Beyond, 0)))
      else if c = CHR ''.'' then (Inr AnyChar, 0)
      else if c \<in> set ''*+?'' then (Inl Invalid, 0)
      else if c \<in> set ''()[|^$'' then (Inl Beyond, 0)
      else if c = CHR ''{'' \<and> (case cs of [] \<Rightarrow> False | d # _ \<Rightarrow> is_digit d)
        then (Inl Beyond, 0)
      else (Inr (Lit c), 0))"

text \<open>The parser of a pattern, from left to right.\<close>

fun parse_terms :: "string \<Rightarrow> regexp" where
  "parse_terms [] = Compiled []"
| "parse_terms (c # cs) =
     (case atom_at c cs of
        (Inl stop, _) \<Rightarrow> stop
      | (Inr a, used) \<Rightarrow>
          (case take_quant (drop used cs) of
             None \<Rightarrow> Beyond
           | Some (q, n) \<Rightarrow>
               (case parse_terms (drop (used + n) cs) of
                  Compiled ts \<Rightarrow> Compiled ((a, q) # ts)
                | stop \<Rightarrow> stop)))"

definition RegExp_new :: "string \<Rightarrow> regexp" where
  "RegExp_new src = parse_terms src"

text \<open>Whether an atom matches a character; \<open>.\<close> matches all but line terminators.\<close>

fun atom_matches :: "atom \<Rightarrow> char \<Rightarrow> bool" where
  "atom_matches (Lit l) c = (c = l)"
| "atom_matches AnyChar c = (c \<noteq> CHR 0x0A \<and> c \<noteq> CHR 0x0D)"
| "atom_matches Space c = is_space c"
| "atom_matches NotSpace c = (\<not> is_space c)"
| "atom_matches Digit c = is_digit c"
| "atom_matches NotDigit c = (\<not> is_digit c)"
| "atom_matches WordChar c = is_word c"
| "atom_matches NotWordChar c = (\<not> is_word c)"

text \<open>
  The backtracking matcher at the start of a string: the text that follows the match
  found first in the order of the language (a greedy quantifier tries one more
  character before the rest of the pattern, a lazy one the rest of the pattern first).
\<close>

fun rmatch :: "(atom \<times> quant) list \<Rightarrow> string \<Rightarrow> string option" where
  "rmatch [] s = Some s"
| "rmatch ((a, Once) # ts) [] = None"
| "rmatch ((a, Once) # ts) (c # cs) = (if atom_matches a c then rmatch ts cs else None)"
| "rmatch ((a, Plus g) # ts) [] = None"
| "rmatch ((a, Plus g) # ts) (c # cs) =
     (if atom_matches a c then rmatch ((a, Star g) # ts) cs else None)"
| "rmatch ((a, Opt g) # ts) [] = rmatch ts []"
| "rmatch ((a, Opt g) # ts) (c # cs) =
     (if \<not> atom_matches a c then rmatch ts (c # cs)
      else if g then (case rmatch ts cs of Some r \<Rightarrow> Some r | None \<Rightarrow> rmatch ts (c # cs))
      else (case rmatch ts (c # cs) of Some r \<Rightarrow> Some r | None \<Rightarrow> rmatch ts cs))"
| "rmatch ((a, Star g) # ts) [] = rmatch ts []"
| "rmatch ((a, Star g) # ts) (c # cs) =
     (if \<not> atom_matches a c then rmatch ts (c # cs)
      else if g then (case rmatch ((a, Star g) # ts) cs of
                        Some r \<Rightarrow> Some r
                      | None \<Rightarrow> rmatch ts (c # cs))
      else (case rmatch ts (c # cs) of
              Some r \<Rightarrow> Some r
            | None \<Rightarrow> rmatch ((a, Star g) # ts) cs))"

text \<open>
  The replacement text of one match (\<open>GetSubstitution\<close>, for a pattern without groups):
  \<open>$$\<close> is a dollar sign, \<open>$&\<close> the matched text, \<open>$`\<close> the text before the match and
  \<open>$'\<close> the text after it; any other \<open>$\<close> stands for itself.
\<close>

fun get_substitution :: "string \<Rightarrow> string \<Rightarrow> string \<Rightarrow> string \<Rightarrow> string" where
  "get_substitution matched pre post [] = []"
| "get_substitution matched pre post [c] = [c]"
| "get_substitution matched pre post (c # d # rest) =
     (if c \<noteq> CHR ''$'' then c # get_substitution matched pre post (d # rest)
      else if d = CHR ''$'' then CHR ''$'' # get_substitution matched pre post rest
      else if d = CHR ''&'' then matched @ get_substitution matched pre post rest
      else if d = CHR 0x60 then pre @ get_substitution matched pre post rest
      else if d = CHR 0x27 then post @ get_substitution matched pre post rest
      else c # get_substitution matched pre post (d # rest))"

text \<open>
  \<open>subject.replace(regexp, replacement)\<close> for a global regular expression: the matches
  are looked for from left to right, each after the end of the one before, and after
  an empty match the search moves on by one character. \<open>pre\<close> is the part of the
  subject already passed.
\<close>

fun replace_from :: "(atom \<times> quant) list \<Rightarrow> string \<Rightarrow> string \<Rightarrow> string \<Rightarrow> string" where
  "replace_from ts replacement pre [] =
     (case rmatch ts [] of
        None \<Rightarrow> []
      | Some _ \<Rightarrow> get_substitution [] pre [] replacement)"
| "replace_from ts replacement pre (c # cs) =
     (case rmatch ts (c # cs) of
        None \<Rightarrow> c # replace_from ts replacement (pre @ [c]) cs
      | Some post \<Rightarrow>
          (let n = Suc (length cs) - length post
           in if n = 0
              then get_substitution [] pre (c # cs) replacement
                     @ c # replace_from ts replacement (pre @ [c]) cs
              else get_substitution (take n (c # cs)) pre post replacement
                     @ replace_from ts replacement (pre @ take n (c # cs)) (drop (n - 1) cs)))"

definition replace_all :: "(atom \<times> quant) list \<Rightarrow> string \<Rightarrow> string \<Rightarrow> string" where
  "replace_all ts replacement subject = replace_from ts replacement [] subject"

text \<open>
  \<open>subject.replace(pattern, replacement)\<close> for a string pattern: the first occurrence.
\<close>

fun replace_first_from :: "string \<Rightarrow> string \<Rightarrow> string \<Rightarrow> string \<Rightarrow> string" where
  "replace_first_from pat replacement pre [] =
     (if pat = [] then get_substitution [] pre [] replacement else [])"
| "replace_first_from pat replacement pre (c # cs) =
     (if take (length pat) (c # cs) = pat
      then get_substitution pat pre (drop (length pat) (c # cs)) replacement
             @ drop (length pat) (c # cs)
      else c # replace_first_from pat replacement (pre @ [c]) cs)"

definition replace_first :: "string \<Rightarrow> string \<Rightarrow> string \<Rightarrow> string" where
  "replace_first pat replacement subject = replace_first_from pat replacement [] subject"

section \<open>The function \<open>t\<close>\<close>

text \<open>
  What a call gives: a value, an exception, or \<open>Unmodelled\<close> where the call builds a
  regular expression that is beyond the model.
\<close>

datatype 'a outcome = Returned 'a | Threw js_error | Unmodelled

text \<open>The source text of the regular expression of a placeholder.\<close>

definition placeholder_source :: "string \<Rightarrow> string" where
  "placeholder_source placeholder =
     ''{{'' @ [backslash] @ ''s*'' @ placeholder @ [backslash] @ ''s*}}''"

text \<open>
  \<open>Object.keys(interpolations).forEach(...)\<close>: the interpolations are the pairs of
  key and value in the order of \<open>Object.keys\<close>.
\<close>

fun interpolate :: "(string \<times> string) list \<Rightarrow> string \<Rightarrow> string outcome" where
  "interpolate [] translation = Returned translation"
| "interpolate ((placeholder, v) # rest) translation =
     (case RegExp_new (placeholder_source placeholder) of
        Compiled ts \<Rightarrow> interpolate rest (replace_all ts v translation)
      | Invalid \<Rightarrow> Threw SyntaxError
      | Beyond \<Rightarrow> Unmodelled)"

definition t :: "'a i18n_scheme \<Rightarrow> string \<Rightarrow> (string \<times> string) list option \<Rightarrow> string outcome" where
  "t s key interpolations =
     (case interpolations of
        None \<Rightarrow> Returned (resolve_text s key)
      | Some pairs \<Rightarrow> interpolate pairs (resolve_text s key))"

section \<open>Changing the language\<close>

text \<open>
  A step of the \<open>try\<close> block gives the exception it throws, if any, and the state it
  leaves; \<open>and_then\<close> runs the next step unless one was thrown.
\<close>

type_synonym step = "browser \<Rightarrow> js_error option \<times> browser"

fun and_then :: "js_error option \<times> browser \<Rightarrow> step \<Rightarrow> js_error option \<times> browser" where
  "and_then (None, st) next_step = next_step st"
| "and_then (Some e, st) next_step = (Some e, st)"

text \<open>
  \<open>updateURL\<close>. \<open>replaceState\<close> is given \<open>newPath + search + hash\<close>, so that only the
  path of the location changes; the new path is taken as it is, as the browser does
  for a path that starts with one slash.
\<close>

definition new_path :: "browser \<Rightarrow> string" where
  "new_path st =
     (let currentPath = pathname st in
      case extractLanguageFromPath currentPath of
        Some currentLangInPath \<Rightarrow>
          replace_first (''/'' @ currentLangInPath) (''/'' @ currentLanguage st) currentPath
      | None \<Rightarrow>
          if currentLanguage st \<noteq> defaultLanguage
          then ''/'' @ currentLanguage st @ currentPath
          else currentPath)"

definition updateURL :: step where
  "updateURL st =
     (let newPath = new_path st in
      if newPath \<noteq> pathname st
      then (if replaceState_throws st then (Some SecurityError, st)
            else (None, st\<lparr>pathname := newPath\<rparr>))
      else (None, st))"

text \<open>\<open>updatePageDirection\<close>; the two classes toggled on \<open>body\<close> repeat \<open>isRTL\<close>.\<close>

definition updatePageDirection :: "browser \<Rightarrow> browser" where
  "updatePageDirection st =
     (case languageConfigs (currentLanguage st) of
        None \<Rightarrow> st
      | Some config \<Rightarrow>
          st\<lparr>isRTL := (direction config = Rtl),
             html_dir := Some (direction config),
             html_lang := currentLanguage st\<rparr>)"

text \<open>\<open>localStorage.setItem('sonar_language', language)\<close>.\<close>

definition store_preference :: "string \<Rightarrow> step" where
  "store_preference language st =
     (if setItem_throws st then (Some QuotaExceededError, st)
      else (None, st\<lparr>sonar_language := Some language\<rparr>))"

text \<open>\<open>dispatchLanguageChangeEvent\<close>.\<close>

definition dispatchLanguageChangeEvent :: "browser \<Rightarrow> browser" where
  "dispatchLanguageChangeEvent st =
     st\<lparr>dispatched := dispatched st @
          [\<lparr>ev_language = currentLanguage st,
            ev_config = languageConfigs (currentLanguage st),
            ev_isRTL = isRTL st\<rparr>]\<rparr>"

text \<open>
  The statements of the \<open>try\<close> block after the load. \<open>updatePageContent\<close> writes the
  texts of \<open>t(key)\<close> into the document and changes nothing that is modelled.
\<close>

definition after_load :: "string \<Rightarrow> step" where
  "after_load language st =
     and_then (and_then (updateURL st) (\<lambda>st. (None, updatePageDirection st)))
       (\<lambda>st. and_then (store_preference language st)
                (\<lambda>st. (None, dispatchLanguageChangeEvent st)))"

text \<open>The \<open>catch\<close> block: the error is logged and the previous language restored.\<close>

definition catch_change :: "string \<Rightarrow> js_error option \<times> browser \<Rightarrow> browser" where
  "catch_change previousLanguage r =
     (case r of
        (None, st) \<Rightarrow> st
      | (Some e, st) \<Rightarrow>
          st\<lparr>currentLanguage := previousLanguage,
             console := console st @ [''Failed to change language:'']\<rparr>)"

text \<open>
  \<open>loadLanguageTranslations\<close> as a step, for a given answer of the fetch: it throws
  nothing.
\<close>

definition load_step :: "fetch_outcome \<Rightarrow> string \<Rightarrow> step" where
  "load_step outcome language st = (None, loadLanguageTranslations language outcome st)"

text \<open>
  \<open>changeLanguage\<close> when nothing else runs while it waits. The first component of the
  result is the reason the returned promise is rejected with, if it is.
\<close>

definition changeLanguage ::
  "fetch_outcome \<Rightarrow> string \<Rightarrow> browser \<Rightarrow> js_error option \<times> browser" where
  "changeLanguage outcome language st =
     (if \<not> isLanguageSupported language \<or> language = currentLanguage st then (None, st)
      else
        (let previousLanguage = currentLanguage st;
             st = st\<lparr>currentLanguage := language\<rparr>
         in (None, catch_change previousLanguage
                     (and_then (load_step outcome language st) (after_load language)))))"

text \<open>
  The same function cut where it waits. \<open>changeLanguage_begin\<close> runs up to the call of
  \<open>fetch\<close> and gives the previous language when the call goes on; \<open>load_settle\<close> runs
  from the answer of the fetch to the end of the load; \<open>changeLanguage_finish\<close> runs
  the rest of the \<open>try\<close> block, and the \<open>catch\<close> block. Other code may run in between.
\<close>

definition changeLanguage_begin :: "string \<Rightarrow> browser \<Rightarrow> string option \<times> browser" where
  "changeLanguage_begin language st =
     (if \<not> isLanguageSupported language \<or> language = currentLanguage st then (None, st)
      else (Some (currentLanguage st),
            load_request language (st\<lparr>currentLanguage := language\<rparr>)))"

definition changeLanguage_finish :: "string \<Rightarrow> string \<Rightarrow> browser \<Rightarrow> browser" where
  "changeLanguage_finish previousLanguage language st =
     catch_change previousLanguage (after_load language st)"

section \<open>Calls of \<open>changeLanguage\<close> that overlap\<close>

text \<open>
  The page runs one piece of code at a time, and a call of \<open>changeLanguage\<close> gives way
  to other code where it waits. The calls under way are kept in a list, each with the
  language it found (\<open>previousLanguage\<close>), the language asked for, and how far it is:
  waiting for its fetch, waiting to go on after its load, or ended.
\<close>

datatype phase = Fetching | Loaded | Ended

record pending_call =
  found :: string
  asked :: string
  phase :: phase

text \<open>
  What happens next: somebody calls \<open>changeLanguage\<close>; the fetch of the call number
  \<open>i\<close> is answered and its load runs to the end; the call number \<open>i\<close> goes on after
  its load and runs to its end.
\<close>

datatype action = Call string | Settle nat fetch_outcome | Finish nat

text \<open>A call runs up to its fetch and, unless it returned at once, joins the list.\<close>

fun issue :: "string \<Rightarrow> browser \<times> pending_call list \<Rightarrow> browser \<times> pending_call list" where
  "issue language (st, calls) =
     (case changeLanguage_begin language st of
        (None, st') \<Rightarrow> (st', calls)
      | (Some previousLanguage, st') \<Rightarrow>
          (st', calls @ [\<lparr>found = previousLanguage, asked = language, phase = Fetching\<rparr>]))"

text \<open>
  One action. \<open>listener\<close> says what the listeners of \<open>languageChanged\<close> do: nothing
  that is modelled, or a call of \<open>changeLanguage\<close> with the given language. Listeners
  run inside \<open>dispatchEvent\<close>, which is the last statement of the \<open>try\<close> block, and
  what they throw does not reach the caller of \<open>dispatchEvent\<close>: so they run if the
  block got that far, on the state it leaves.
\<close>

fun perform ::
  "string option \<Rightarrow> action \<Rightarrow> browser \<times> pending_call list \<Rightarrow> browser \<times> pending_call list" where
  "perform listener (Call language) cfg = issue language cfg"
| "perform listener (Settle i outcome) (st, calls) =
     (if i < length calls \<and> phase (calls ! i) = Fetching
      then (load_settle (asked (calls ! i)) outcome st,
            calls[i := (calls ! i)\<lparr>phase := Loaded\<rparr>])
      else (st, calls))"
| "perform listener (Finish i) (st, calls) =
     (if i < length calls \<and> phase (calls ! i) = Loaded
      then
        (let c = calls ! i;
             r = after_load (asked c) st;
             cfg = (catch_change (found c) r, calls[i := c\<lparr>phase := Ended\<rparr>])
         in case (fst r, listener) of
              (None, Some language) \<Rightarrow> issue language cfg
            | _ \<Rightarrow> cfg)
      else (st, calls))"

definition run ::
  "string option \<Rightarrow> action list \<Rightarrow> browser \<times> pending_call list \<Rightarrow> browser \<times> pending_call list" where
  "run listener actions cfg = foldl (\<lambda>cfg a. perform listener a cfg) cfg actions"

section \<open>Notions of the specification and examples\<close>

text \<open>The fetch collaborator failed, or what it returned is not JSON.\<close>

fun fetch_failed :: "fetch_outcome \<Rightarrow> bool" where
  "fetch_failed (Json tree) = False"
| "fetch_failed _ = True"

text \<open>
  A page for the examples: the engine as constructed on \<open>/about\<close> with English
  detected, nothing loaded yet, and a browser in which nothing throws.
\<close>

definition example_page :: browser where
  "example_page =
     \<lparr>currentLanguage = ''en'', translationTable = Map.empty, isRTL = False,
      initialized = False,
      pathname = ''/about'', search = [], hash = [], sonar_language = None,
      html_dir = None, html_lang = [], dispatched = [], requests = [], console = [],
      replaceState_throws = False, setItem_throws = False\<rparr>"

text \<open>
  An engine for the examples of the resolver: Spanish is active; a greeting and a
  welcome exist in Spanish, one footer text in English only, and one title is empty in
  English.
\<close>

definition example_engine :: i18n where
  "example_engine =
     \<lparr>currentLanguage = ''es'',
      translationTable =
        [''es'' \<mapsto> Tree [(''greeting'', Leaf ''Hola {{ name }}, {{unknown}}''),
                       (''welcome'', Leaf ''Hi {{user.name}} ({{user_name}})'')],
         ''en'' \<mapsto> Tree [(''greeting'', Leaf ''Hello {{name}}''),
                       (''footer'', Tree [(''onlyInEnglish'', Leaf ''English only'')]),
                       (''title'', Leaf '''')]],
      isRTL = False, initialized = True\<rparr>"

text \<open>
  The translation walk in the words of the specification: every segment but the last
  resolves to a nested tree, and the last to a string leaf.
\<close>

fun spec_walk :: "translation \<Rightarrow> string list \<Rightarrow> string option" where
  "spec_walk (Tree kvs) [k] =
     (case map_of kvs k of Some (Leaf str) \<Rightarrow> Some str | _ \<Rightarrow> None)"
| "spec_walk (Tree kvs) (k # k' # ks) =
     (case map_of kvs k of Some (Tree sub) \<Rightarrow> spec_walk (Tree sub) (k' # ks) | _ \<Rightarrow> None)"
| "spec_walk _ _ = None"

text \<open>
  The walk of the specification against the tree loaded for a language; a language
  that is not loaded has no tree to walk.
\<close>

definition spec_lookup :: "'a i18n_scheme \<Rightarrow> string \<Rightarrow> string \<Rightarrow> string option" where
  "spec_lookup s language key =
     (case translationTable s language of
        None \<Rightarrow> None
      | Some tree \<Rightarrow> spec_walk tree (split_js CHR ''.'' key))"

text \<open>A walk that ends at the empty string, taken as a failed walk.\<close>

fun nonempty :: "string option \<Rightarrow> string option" where
  "nonempty None = None"
| "nonempty (Some str) = (if str = [] then None else Some str)"

text \<open>All the ways to merge two sequences, each kept in its order.\<close>

fun interleavings :: "'a list \<Rightarrow> 'a list \<Rightarrow> 'a list list" where
  "interleavings [] ys = [ys]"
| "interleavings (x # xs) [] = [x # xs]"
| "interleavings (x # xs) (y # ys) =
     map ((#) x) (interleavings xs (y # ys)) @ map ((#) y) (interleavings (x # xs) ys)"

text \<open>
  The runs of two calls in which the second call is made while the first is
  suspended: \<open>changeLanguage(l1)\<close> is called; then its two later parts and the three
  parts of \<open>changeLanguage(l2)\<close> follow in any order in which the second call is made
  before the first goes on after its load. The first call is number 0 in the list of
  calls and the second, if it goes on, number 1.
\<close>

definition overlapping_runs ::
  "string \<Rightarrow> fetch_outcome \<Rightarrow> string \<Rightarrow> fetch_outcome \<Rightarrow> action list list" where
  "overlapping_runs l1 o1 l2 o2 =
     map ((#) (Call l1))
       (filter (\<lambda>r. Finish 0 \<in> set (dropWhile (\<lambda>a. a \<noteq> Call l2) r))
          (interleavings [Settle 0 o1, Finish 0] [Call l2, Settle 1 o2, Finish 1]))"

text \<open>
  The run in which the second call is made by a listener of the notification of the
  first: the listener's call is part of \<open>Finish 0\<close>, and the second call, if it goes
  on, is number 1.
\<close>

definition listener_run :: "string \<Rightarrow> fetch_outcome \<Rightarrow> fetch_outcome \<Rightarrow> action list" where
  "listener_run l1 o1 o2 = [Call l1, Settle 0 o1, Finish 0, Settle 1 o2, Finish 1]"

text \<open>
  The path \<open>p'\<close> is the path \<open>p\<close> rewritten for the language \<open>lang\<close>: where \<open>p\<close> begins
  with a slash and a segment that is a supported language, that segment is replaced
  by \<open>lang\<close>; where the first non-empty segment of \<open>p\<close> is no supported language of
  two characters, \<open>lang\<close> is put in front unless it is the default language, which
  leaves \<open>p\<close> as it is.
\<close>

definition url_rewritten :: "string \<Rightarrow> string \<Rightarrow> string \<Rightarrow> bool" where
  "url_rewritten lang p p' \<longleftrightarrow>
     (\<forall>l rest. p = ''/'' @ l @ rest \<and> isLanguageSupported l
                \<and> (rest = [] \<or> (\<exists>r. rest = CHR ''/'' # r))
        \<longrightarrow> p' = ''/'' @ lang @ rest)
     \<and> (\<not> (length (spec_first_segment p) = 2 \<and> isLanguageSupported (spec_first_segment p))
        \<longrightarrow> p' = (if lang = defaultLanguage then p else ''/'' @ lang @ p))"


text \<open>
  Placeholder names of plain characters: no character with a meaning in a regular
  expression, no brace or bracket, and no white space.
\<close>

definition plain_char :: "char \<Rightarrow> bool" where
  "plain_char c \<longleftrightarrow> c \<notin> set (''^$.*+?()[]{}|'' @ [backslash]) \<and> \<not> is_space c"

definition plain_name :: "string \<Rightarrow> bool" where
  "plain_name n \<longleftrightarrow> n \<noteq> [] \<and> list_all plain_char n"

text \<open>
  The regular expression of a plain placeholder name: two opening braces, white
  space, the characters of the name, white space, two closing braces.
\<close>

definition placeholder_terms :: "string \<Rightarrow> (atom \<times> quant) list" where
  "placeholder_terms n =
     [(Lit CHR ''{'', Once), (Lit CHR ''{'', Once), (Space, Star True)]
       @ map (\<lambda>c. (Lit c, Once)) n
       @ [(Space, Star True), (Lit CHR ''}'', Once), (Lit CHR ''}'', Once)]"

section \<open>Registry facts\<close>

lemma languageConfigs_simps:
  "languageConfigs l =
     (if l = ''ar'' then Some (languages ! 6)
      else if l = ''zh'' then Some (languages ! 5)
      else if l = ''ja'' then Some (languages ! 4)
      else if l = ''de'' then Some (languages ! 3)
      else if l = ''fr'' then Some (languages ! 2)
      else if l = ''es'' then Some (languages ! 1)
      else if l = ''en'' then Some (languages ! 0)
      else None)"
  by (simp add: languageConfigs_def languages_def)

lemma isLanguageSupported_iff:
  "isLanguageSupported l \<longleftrightarrow> l \<in> {''en'', ''es'', ''fr'', ''de'', ''ja'', ''zh''}"
  by (simp add: isLanguageSupported_def languageConfigs_simps languages_def)


lemma supported_length: "isLanguageSupported l \<Longrightarrow> length l = 2"
  by (auto simp: isLanguageSupported_iff)

lemma supported_nonempty: "isLanguageSupported l \<Longrightarrow> l \<noteq> []"
  by (auto simp: isLanguageSupported_iff)

section \<open>Detection: precedence and support\<close>

lemma split_js_nonempty: "split_js sep s \<noteq> []"
  by (induction s) (auto split: list.splits)

lemma split_js_head:
  "split_js sep s = w # ws \<Longrightarrow> w = takeWhile (\<lambda>c. c \<noteq> sep) s"
  by (induction s arbitrary: w ws) (auto simp: split_js_nonempty split: if_splits list.splits)


lemma first_segment_spec:
  "take 1 (path_segments p)
     = (if spec_first_segment p = [] then [] else [spec_first_segment p])"
proof (induction p)
  case Nil
  show ?case by (simp add: path_segments_def spec_first_segment_def)
next
  case (Cons c cs)
  show ?case
  proof (cases "c = CHR ''/''")
    case True
    with Cons.IH show ?thesis by (simp add: path_segments_def spec_first_segment_def)
  next
    case False
    obtain w ws where sp: "split_js CHR ''/'' cs = w # ws"
      using split_js_nonempty [of "CHR ''/''" cs] by (cases "split_js CHR ''/'' cs") auto
    from split_js_head [OF sp] False sp show ?thesis
      by (simp add: path_segments_def spec_first_segment_def)
  qed
qed



lemma find_path_candidate:
  "List.find isLanguageSupported
     (if length (spec_first_segment p) = 2 then [spec_first_segment p] else [])
     = truthy_supported (extractLanguageFromPath p)"
proof -
  have "path_segments p = [] \<or> (\<exists>rest. path_segments p = spec_first_segment p # rest \<and> spec_first_segment p \<noteq> [])"
    using first_segment_spec [of p]
    by (cases "path_segments p") (auto split: if_splits)
  moreover have "path_segments p = [] \<Longrightarrow> spec_first_segment p = []"
    using first_segment_spec [of p] by (auto split: if_splits)
  ultimately show ?thesis
    by (auto simp: extractLanguageFromPath_def dest: supported_nonempty supported_length)
qed








section \<open>Localized URLs\<close>

text \<open>
  Claim C10. For every path \<open>p\<close> and every language code \<open>lang\<close> (a non-empty string),
  \<open>getLocalizedURL(p, lang)\<close> is \<open>p\<close> unchanged when \<open>lang\<close> is the default language,
  and \<open>"/" + lang + p\<close> otherwise, whatever \<open>p\<close> is: \<open>p\<close> is not looked at, so a path
  that already begins with a locale prefix receives a second one.
\<close>

theorem C10_getLocalizedURL:
  "lang \<noteq> [] \<Longrightarrow>
   getLocalizedURL s p (Some lang) = (if lang = defaultLanguage then p else ''/'' @ lang @ p)"
  by (simp add: getLocalizedURL_def)

text \<open>
  Claim C10 at a path that already begins with a locale prefix, and at the default
  language.
\<close>

theorem C10_getLocalizedURL_witness:
  "''fr'' \<noteq> [] \<and> ''en'' \<noteq> []
   \<and> getLocalizedURL
     \<lparr>currentLanguage = ''es'', translationTable = Map.empty, isRTL = False,
      initialized = True\<rparr> ''/fr/about'' (Some ''fr'') = ''/fr/fr/about''
   \<and> getLocalizedURL
     \<lparr>currentLanguage = ''es'', translationTable = Map.empty, isRTL = False,
      initialized = True\<rparr> ''/fr/about'' (Some ''en'') = ''/fr/about''"
  using C10_getLocalizedURL
    [of "''fr''" "\<lparr>currentLanguage = ''es'', translationTable = Map.empty, isRTL = False,
      initialized = True\<rparr>" "''/fr/about''"]
    C10_getLocalizedURL
    [of "''en''" "\<lparr>currentLanguage = ''es'', translationTable = Map.empty, isRTL = False,
      initialized = True\<rparr>" "''/fr/about''"]
  by (simp add: defaultLanguage_def)

text \<open>
  Without a language, or with the empty string (\<open>language || this.currentLanguage\<close>),
  the current language is used.
\<close>

lemma getLocalizedURL_current:
  "getLocalizedURL s p (Some []) = getLocalizedURL s p None
   \<and> getLocalizedURL s p None =
       (if currentLanguage s = defaultLanguage then p else ''/'' @ currentLanguage s @ p)"
  by (simp add: getLocalizedURL_def)


section \<open>The resolver: fallback chain\<close>

lemma walk_spec_walk:
  "segs \<noteq> [] \<Longrightarrow>
     (case walk tree segs of Some (Leaf str) \<Rightarrow> Some str | _ \<Rightarrow> None) = spec_walk tree segs"
proof (induction segs arbitrary: tree)
  case Nil
  then show ?case by simp
next
  case (Cons k ks)
  show ?case
  proof (cases tree)
    case (Tree kvs)
    show ?thesis
    proof (cases ks)
      case Nil
      with Tree show ?thesis by (simp split: option.splits translation.splits)
    next
      case (Cons k' ks')
      with Tree Cons.IH show ?thesis
        by (auto split: option.splits translation.splits)
    qed
  qed (cases ks; simp)+
qed

lemma getTranslation_spec_lookup: "getTranslation s key language = spec_lookup s language key"
  by (simp add: getTranslation_def spec_lookup_def walk_spec_walk split_js_nonempty
      split: option.splits)

text \<open>
  Claim C2, amended. For every dotted key, \<open>t(key)\<close> walks the tree of the active
  language segment by segment; if that walk fails (missing path, non-string leaf, or
  an empty string at its end) and the active language is not the default one, it walks
  the tree of the default language; if that fails in the same way too, it returns the
  key itself.
\<close>

theorem C2_resolve_fallback:
  "t s key None = Returned
     (case nonempty (spec_lookup s (currentLanguage s) key) of
        Some str \<Rightarrow> str
      | None \<Rightarrow>
          if currentLanguage s = defaultLanguage then key
          else (case nonempty (spec_lookup s defaultLanguage key) of
                  Some str \<Rightarrow> str
                | None \<Rightarrow> key))"
  by (cases "spec_lookup s (currentLanguage s) key"; cases "spec_lookup s defaultLanguage key")
     (auto simp: t_def resolve_text_def getTranslation_spec_lookup Let_def)

lemma ex_tables:
  "translationTable example_engine ''es'' = Some (Tree [(''greeting'', Leaf ''Hola {{ name }}, {{unknown}}''),
                       (''welcome'', Leaf ''Hi {{user.name}} ({{user_name}})'')])"
  "translationTable example_engine ''en'' = Some (Tree [(''greeting'', Leaf ''Hello {{name}}''),
                       (''footer'', Tree [(''onlyInEnglish'', Leaf ''English only'')]),
                       (''title'', Leaf '''')])"
  "currentLanguage example_engine = ''es''"
  by (simp_all add: example_engine_def)

text \<open>
  Claim C2, amended, on the examples of the specification: with Spanish active, a key
  present only under English gives the English string, and a key absent from both
  trees gives the key.
\<close>

theorem C2_resolve_fallback_witness:
  "t example_engine ''footer.onlyInEnglish'' None = Returned ''English only''
   \<and> t example_engine ''a.b.missing'' None = Returned ''a.b.missing''"
  using C2_resolve_fallback [of example_engine "''footer.onlyInEnglish''"]
        C2_resolve_fallback [of example_engine "''a.b.missing''"]
  by (simp add: spec_lookup_def ex_tables defaultLanguage_def)

text \<open>
  Claim C2, as stated, fails where a walk ends at an empty string: with Spanish active
  and the key \<open>title\<close> present only under English, as the empty string, the walk in the
  Spanish tree fails, the walk in the English tree succeeds, and yet \<open>t\<close> returns the
  key and not the English string.
\<close>

theorem C2_empty_leaf_counterexample:
  "currentLanguage example_engine \<noteq> defaultLanguage
   \<and> spec_lookup example_engine (currentLanguage example_engine) ''title'' = None
   \<and> spec_lookup example_engine defaultLanguage ''title'' = Some ''''
   \<and> t example_engine ''title'' None = Returned ''title''"
  by (simp add: spec_lookup_def ex_tables defaultLanguage_def t_def resolve_text_def getTranslation_def)

section \<open>The translation store: loading and fallback\<close>

lemma requests_load:
  "requests (loadLanguageTranslations language outcome st)
     = requests st @ [''/src/data/i18n/'' @ language @ ''.json'']"
  by (cases outcome) (simp_all add: loadLanguageTranslations_def load_settle_def load_request_def)

lemma table_load:
  "translationTable (loadLanguageTranslations language outcome st)
     = (translationTable st)(language \<mapsto>
          (case outcome of Json tree \<Rightarrow> tree | _ \<Rightarrow> getInlineTranslations language))"
  by (cases outcome) (simp_all add: loadLanguageTranslations_def load_settle_def load_request_def)

text \<open>
  Claim C3, as stated, fails: \<open>loadLanguageTranslations\<close> has no cache test, and two
  calls for \<open>fr\<close> pass the URL of \<open>fr\<close> to \<open>fetch\<close> twice.
\<close>

theorem C3_load_twice_counterexample:
  "requests (loadLanguageTranslations ''fr'' (Json (Tree []))
       (loadLanguageTranslations ''fr'' (Json (Tree [])) example_page))
     = [''/src/data/i18n/fr.json'', ''/src/data/i18n/fr.json'']"
  by (simp add: requests_load example_page_def)

text \<open>
  Claim C3, amended. For every language code, every call of the load operation
  triggers the fetch collaborator once, whether or not a tree is already stored for
  the code, and stores the tree it gets (the fetched one, or the built-in fallback)
  in place of the stored one; two calls that get the same answer leave the same
  trees as one call.
\<close>

theorem C3_load_fetches_every_time:
  "requests (loadLanguageTranslations language outcome st)
     = requests st @ [''/src/data/i18n/'' @ language @ ''.json'']
   \<and> translationTable (loadLanguageTranslations language outcome st) language
     = Some (case outcome of Json tree \<Rightarrow> tree | _ \<Rightarrow> getInlineTranslations language)
   \<and> translationTable (loadLanguageTranslations language outcome
        (loadLanguageTranslations language outcome st))
     = translationTable (loadLanguageTranslations language outcome st)"
  by (simp add: requests_load table_load)

lemma inline_en_not_empty: "inline_en \<noteq> Tree []"
  by (simp add: inline_en_def)

text \<open>
  Claim C5, as stated, fails in two ways. For a code without a built-in table, a
  failed fetch leaves the built-in English table, which is not the empty tree: here
  for \<open>de\<close>. And malformed data that is valid JSON is not replaced by any fallback:
  here the body \<open>42\<close> for \<open>fr\<close> is stored as it is, where the built-in French table
  exists.
\<close>

theorem C5_fallback_counterexample:
  "isLanguageSupported ''de''
   \<and> translationTable (loadLanguageTranslations ''de'' NetworkFailure example_page) ''de''
       = Some inline_en
   \<and> inline_en \<noteq> Tree []
   \<and> translationTable (loadLanguageTranslations ''fr'' (Json Other) example_page) ''fr''
       = Some Other
   \<and> Other \<noteq> inline_fr \<and> Other \<noteq> Tree []"
  by (simp add: table_load getInlineTranslations_def object_prototype_names_def
      isLanguageSupported_iff inline_en_not_empty inline_fr_def)

lemma inline_supported:
  "isLanguageSupported language \<Longrightarrow>
   getInlineTranslations language =
     (if language = ''en'' then inline_en
      else if language = ''es'' then inline_es
      else if language = ''fr'' then inline_fr
      else inline_en)"
  by (auto simp: isLanguageSupported_iff getInlineTranslations_def object_prototype_names_def)

text \<open>
  Claim C5, amended. For every supported language code the load raises nothing to
  its caller, whatever the fetch collaborator does. When the fetch fails (the request
  is rejected, the response is not ok, or its body is not JSON), the store falls
  back to the built-in table of that code if there is one (\<open>en\<close>, \<open>es\<close>, \<open>fr\<close>), and
  to the built-in English table otherwise. When the body is JSON, the store keeps
  the value it parses to, whatever its shape: malformed data of this kind gets no
  fallback.
\<close>

theorem C5_load_fallback:
  assumes "isLanguageSupported language"
  shows "fst (load_step outcome language st) = None
       \<and> (fetch_failed outcome \<longrightarrow>
            translationTable (snd (load_step outcome language st)) language
              = Some (if language = ''en'' then inline_en
                      else if language = ''es'' then inline_es
                      else if language = ''fr'' then inline_fr
                      else inline_en))
       \<and> (outcome = Json v \<longrightarrow>
            translationTable (snd (load_step outcome language st)) language = Some v)"
  using assms by (cases outcome) (simp_all add: load_step_def table_load inline_supported)

text \<open>
  Claim C5, amended, at \<open>es\<close> with a body that is not JSON, at \<open>ja\<close> with a response
  that is not ok, and at \<open>es\<close> with a body that is a JSON string.
\<close>

theorem C5_load_fallback_witness:
  "isLanguageSupported ''es'' \<and> isLanguageSupported ''ja''
   \<and> fetch_failed InvalidJson \<and> fetch_failed NotOk
   \<and> fst (load_step InvalidJson ''es'' example_page) = None
   \<and> translationTable (snd (load_step InvalidJson ''es'' example_page)) ''es'' = Some inline_es
   \<and> translationTable (snd (load_step NotOk ''ja'' example_page)) ''ja'' = Some inline_en
   \<and> translationTable (snd (load_step (Json (Leaf ''oops'')) ''es'' example_page)) ''es''
       = Some (Leaf ''oops'')"
  using C5_load_fallback [of "''es''" InvalidJson example_page]
    C5_load_fallback [of "''ja''" NotOk example_page]
    C5_load_fallback [of "''es''" "Json (Leaf ''oops'')" example_page "Leaf ''oops''"]
  by (simp add: isLanguageSupported_iff)

section \<open>String replacement\<close>

lemma get_substitution_plain:
  "CHR ''$'' \<notin> set replacement \<Longrightarrow> get_substitution m pre post replacement = replacement"
  by (induction m pre post replacement rule: get_substitution.induct) auto

section \<open>Changing the language: the steps\<close>

lemma updateURL_ok:
  "\<not> replaceState_throws st \<Longrightarrow> updateURL st = (None, st\<lparr>pathname := new_path st\<rparr>)"
  by (simp add: updateURL_def Let_def)

lemma after_load_cases:
  "after_load language st =
     (if replaceState_throws st \<and> new_path st \<noteq> pathname st then (Some SecurityError, st)
      else if setItem_throws st
        then (Some QuotaExceededError, updatePageDirection (st\<lparr>pathname := new_path st\<rparr>))
      else (None, dispatchLanguageChangeEvent
                    ((updatePageDirection (st\<lparr>pathname := new_path st\<rparr>))
                       \<lparr>sonar_language := Some language\<rparr>)))"
  by (simp add: after_load_def updateURL_def store_preference_def updatePageDirection_def Let_def
      split: option.splits)

lemma after_load_ok:
  "\<not> replaceState_throws st \<Longrightarrow> \<not> setItem_throws st \<Longrightarrow>
   after_load language st =
     (None, dispatchLanguageChangeEvent
              ((updatePageDirection (st\<lparr>pathname := new_path st\<rparr>))
                 \<lparr>sonar_language := Some language\<rparr>))"
  by (simp add: after_load_cases)

lemma load_settle_fields [simp]:
  "currentLanguage (load_settle l outcome st) = currentLanguage st"
  "pathname (load_settle l outcome st) = pathname st"
  "dispatched (load_settle l outcome st) = dispatched st"
  "sonar_language (load_settle l outcome st) = sonar_language st"
  "replaceState_throws (load_settle l outcome st) = replaceState_throws st"
  "setItem_throws (load_settle l outcome st) = setItem_throws st"
  by (cases outcome; simp add: load_settle_def)+

lemma load_request_fields [simp]:
  "currentLanguage (load_request l st) = currentLanguage st"
  "pathname (load_request l st) = pathname st"
  "dispatched (load_request l st) = dispatched st"
  "sonar_language (load_request l st) = sonar_language st"
  "replaceState_throws (load_request l st) = replaceState_throws st"
  "setItem_throws (load_request l st) = setItem_throws st"
  by (simp_all add: load_request_def)

lemma updatePageDirection_fields [simp]:
  "currentLanguage (updatePageDirection st) = currentLanguage st"
  "pathname (updatePageDirection st) = pathname st"
  "dispatched (updatePageDirection st) = dispatched st"
  "sonar_language (updatePageDirection st) = sonar_language st"
  "console (updatePageDirection st) = console st"
  "replaceState_throws (updatePageDirection st) = replaceState_throws st"
  "setItem_throws (updatePageDirection st) = setItem_throws st"
  by (simp_all add: updatePageDirection_def split: option.splits)

lemma dispatch_fields [simp]:
  "currentLanguage (dispatchLanguageChangeEvent st) = currentLanguage st"
  "pathname (dispatchLanguageChangeEvent st) = pathname st"
  "sonar_language (dispatchLanguageChangeEvent st) = sonar_language st"
  "console (dispatchLanguageChangeEvent st) = console st"
  "replaceState_throws (dispatchLanguageChangeEvent st) = replaceState_throws st"
  "setItem_throws (dispatchLanguageChangeEvent st) = setItem_throws st"
  "map ev_language (dispatched (dispatchLanguageChangeEvent st))
     = map ev_language (dispatched st) @ [currentLanguage st]"
  by (simp_all add: dispatchLanguageChangeEvent_def)

lemma new_path_cong:
  "pathname st' = pathname st \<Longrightarrow> currentLanguage st' = currentLanguage st \<Longrightarrow>
   new_path st' = new_path st"
  by (simp add: new_path_def Let_def split: option.splits)

lemma finish_ok:
  assumes "\<not> replaceState_throws st" "\<not> setItem_throws st"
  shows "currentLanguage (changeLanguage_finish prev language st) = currentLanguage st"
    and "pathname (changeLanguage_finish prev language st) = new_path st"
    and "map ev_language (dispatched (changeLanguage_finish prev language st))
           = map ev_language (dispatched st) @ [currentLanguage st]"
    and "replaceState_throws (changeLanguage_finish prev language st) = replaceState_throws st"
    and "setItem_throws (changeLanguage_finish prev language st) = setItem_throws st"
  using assms
  by (simp_all add: changeLanguage_finish_def catch_change_def after_load_ok)


lemma change_as_phases:
  "changeLanguage outcome language st =
     (case changeLanguage_begin language st of
        (None, st') \<Rightarrow> (None, st')
      | (Some prev, st') \<Rightarrow>
          (None, changeLanguage_finish prev language (load_settle language outcome st')))"
  by (simp add: changeLanguage_def changeLanguage_begin_def changeLanguage_finish_def
      load_step_def loadLanguageTranslations_def Let_def)

lemma begin_proceeds:
  "isLanguageSupported l \<Longrightarrow> l \<noteq> currentLanguage st \<Longrightarrow>
   changeLanguage_begin l st
     = (Some (currentLanguage st), load_request l (st\<lparr>currentLanguage := l\<rparr>))"
  by (simp add: changeLanguage_begin_def)

lemma change_proceeds:
  "isLanguageSupported l \<Longrightarrow> l \<noteq> currentLanguage st \<Longrightarrow>
   changeLanguage outcome l st
     = (None, changeLanguage_finish (currentLanguage st) l
                (load_settle l outcome (load_request l (st\<lparr>currentLanguage := l\<rparr>))))"
  by (simp add: change_as_phases begin_proceeds)


lemma loaded_new_path:
  "new_path (load_settle l outcome (load_request l (st\<lparr>currentLanguage := l\<rparr>)))
     = new_path (st\<lparr>currentLanguage := l\<rparr>)"
  by (rule new_path_cong) simp_all

section \<open>Changing the language: failures\<close>




section \<open>Calls of \<open>changeLanguage\<close> that overlap: notifications\<close>

lemma overlapping_runs_eq:
  "overlapping_runs l1 o1 l2 o2 =
     [[Call l1, Settle 0 o1, Call l2, Finish 0, Settle 1 o2, Finish 1],
      [Call l1, Settle 0 o1, Call l2, Settle 1 o2, Finish 0, Finish 1],
      [Call l1, Settle 0 o1, Call l2, Settle 1 o2, Finish 1, Finish 0],
      [Call l1, Call l2, Settle 0 o1, Finish 0, Settle 1 o2, Finish 1],
      [Call l1, Call l2, Settle 0 o1, Settle 1 o2, Finish 0, Finish 1],
      [Call l1, Call l2, Settle 0 o1, Settle 1 o2, Finish 1, Finish 0],
      [Call l1, Call l2, Settle 1 o2, Settle 0 o1, Finish 0, Finish 1],
      [Call l1, Call l2, Settle 1 o2, Settle 0 o1, Finish 1, Finish 0],
      [Call l1, Call l2, Settle 1 o2, Finish 1, Settle 0 o1, Finish 0]]"
  by (simp add: overlapping_runs_def)

lemma issue_proceeds:
  "isLanguageSupported l \<Longrightarrow> l \<noteq> currentLanguage st \<Longrightarrow>
   issue l (st, calls)
     = (load_request l (st\<lparr>currentLanguage := l\<rparr>),
        calls @ [\<lparr>found = currentLanguage st, asked = l, phase = Fetching\<rparr>])"
  by (simp add: changeLanguage_begin_def)

lemma issue_returns:
  "\<not> isLanguageSupported l \<or> l = currentLanguage st \<Longrightarrow> issue l (st, calls) = (st, calls)"
  by (auto simp: changeLanguage_begin_def)

lemma after_load_no_throw:
  "\<not> replaceState_throws st \<Longrightarrow> \<not> setItem_throws st \<Longrightarrow> fst (after_load language st) = None"
  by (simp add: after_load_ok)

lemma perform_finish_ok:
  assumes "i < length calls" and "phase (calls ! i) = Loaded"
    and "\<not> replaceState_throws st" and "\<not> setItem_throws st"
  shows "perform listener (Finish i) (st, calls) =
     (case listener of
        None \<Rightarrow> (changeLanguage_finish (found (calls ! i)) (asked (calls ! i)) st,
                 calls[i := (calls ! i)\<lparr>phase := Ended\<rparr>])
      | Some l \<Rightarrow> issue l (changeLanguage_finish (found (calls ! i)) (asked (calls ! i)) st,
                         calls[i := (calls ! i)\<lparr>phase := Ended\<rparr>]))"
  using assms
  by (simp add: Let_def after_load_no_throw changeLanguage_finish_def split: option.splits
      del: issue.simps)

lemma run_simps:
  "run listener [] cfg = cfg"
  "run listener (a # as) cfg = run listener as (perform listener a cfg)"
  by (simp_all add: run_def)

lemma perform_finish_skip:
  "\<not> (i < length calls \<and> phase (calls ! i) = Loaded) \<Longrightarrow>
   perform listener (Finish i) (st, calls) = (st, calls)"
  by auto

text \<open>
  Claim C7, as stated, fails. On an English page, \<open>changeLanguage('de')\<close> issued while
  \<open>changeLanguage('fr')\<close> waits for its fetch is not rejected (it proceeds, having found
  \<open>fr\<close> as current language), and when both calls have completed two notifications
  have been dispatched.
\<close>

theorem C7_second_switch_counterexample:
  "fst (changeLanguage_begin ''de'' (snd (changeLanguage_begin ''fr'' example_page))) = Some ''fr''
   \<and> map ev_language (dispatched (fst (run None
        [Call ''fr'', Call ''de'', Settle 0 NotOk, Finish 0, Settle 1 NotOk, Finish 1]
        (example_page, [])))) = [''de'', ''de'']"
proof -
  have s: "isLanguageSupported ''fr''" "isLanguageSupported ''de''"
    by (simp_all add: isLanguageSupported_iff)
  have e: "currentLanguage example_page = ''en''" "dispatched example_page = []"
    "\<not> replaceState_throws example_page" "\<not> setItem_throws example_page"
    by (simp_all add: example_page_def)
  show ?thesis
    using s e
    by (simp add: begin_proceeds run_simps issue_proceeds perform_finish_ok finish_ok
        del: issue.simps perform.simps(3))
qed

text \<open>
  Claim C7, amended. There is no switching state. Let \<open>changeLanguage(l1)\<close> proceed
  (\<open>l1\<close> supported and not current) with no step throwing. A call
  \<open>changeLanguage(l2)\<close> issued before the first call has completed is a no-op exactly
  if \<open>l2\<close> is unsupported or equals \<open>l1\<close>. Otherwise it proceeds. If it was issued while
  the first call was suspended in its load, then in every order in which the two
  fetches are answered and the two calls resume, two notifications are dispatched
  for the pair, both carrying \<open>l2\<close>. If it was issued by a listener of the first call's
  notification, two notifications are dispatched, carrying \<open>l1\<close> and then \<open>l2\<close>. Where
  the second call is a no-op, one notification is dispatched, carrying \<open>l1\<close>.
\<close>

theorem C7_no_switching_state:
  assumes "isLanguageSupported l1" and "l1 \<noteq> currentLanguage st"
    and "\<not> replaceState_throws st" and "\<not> setItem_throws st"
  shows "((fst (changeLanguage_begin l2 (snd (changeLanguage_begin l1 st))) = None)
            = (\<not> isLanguageSupported l2 \<or> l2 = l1))
       \<and> (isLanguageSupported l2 \<and> l2 \<noteq> l1 \<longrightarrow>
            (\<forall>r \<in> set (overlapping_runs l1 o1 l2 o2).
               map ev_language (dispatched (fst (run None r (st, []))))
                 = map ev_language (dispatched st) @ [l2, l2])
            \<and> map ev_language (dispatched (fst (run (Some l2) (listener_run l1 o1 o2) (st, []))))
                 = map ev_language (dispatched st) @ [l1, l2])
       \<and> (\<not> isLanguageSupported l2 \<or> l2 = l1 \<longrightarrow>
            (\<forall>r \<in> set (overlapping_runs l1 o1 l2 o2).
               map ev_language (dispatched (fst (run None r (st, []))))
                 = map ev_language (dispatched st) @ [l1])
            \<and> map ev_language (dispatched (fst (run (Some l2) (listener_run l1 o1 o2) (st, []))))
                 = map ev_language (dispatched st) @ [l1])"
proof (intro conjI impI)
  show "(fst (changeLanguage_begin l2 (snd (changeLanguage_begin l1 st))) = None)
           = (\<not> isLanguageSupported l2 \<or> l2 = l1)"
    using assms by (auto simp: begin_proceeds changeLanguage_begin_def)
next
  assume "isLanguageSupported l2 \<and> l2 \<noteq> l1"
  then show "\<forall>r \<in> set (overlapping_runs l1 o1 l2 o2).
               map ev_language (dispatched (fst (run None r (st, []))))
                 = map ev_language (dispatched st) @ [l2, l2]"
    using assms
    by (simp add: overlapping_runs_eq run_simps issue_proceeds perform_finish_ok finish_ok
        del: issue.simps perform.simps(3))
next
  assume "isLanguageSupported l2 \<and> l2 \<noteq> l1"
  then show "map ev_language (dispatched (fst (run (Some l2) (listener_run l1 o1 o2) (st, []))))
                 = map ev_language (dispatched st) @ [l1, l2]"
    using assms
    by (simp add: listener_run_def run_simps issue_proceeds issue_returns perform_finish_ok perform_finish_skip finish_ok
        del: issue.simps perform.simps(3))
next
  assume "\<not> isLanguageSupported l2 \<or> l2 = l1"
  then show "\<forall>r \<in> set (overlapping_runs l1 o1 l2 o2).
               map ev_language (dispatched (fst (run None r (st, []))))
                 = map ev_language (dispatched st) @ [l1]"
    using assms
    by (auto simp add: overlapping_runs_eq run_simps issue_proceeds issue_returns perform_finish_ok perform_finish_skip finish_ok
        simp del: issue.simps perform.simps(3))
next
  assume "\<not> isLanguageSupported l2 \<or> l2 = l1"
  then show "map ev_language (dispatched (fst (run (Some l2) (listener_run l1 o1 o2) (st, []))))
                 = map ev_language (dispatched st) @ [l1]"
    using assms
    by (auto simp add: listener_run_def run_simps issue_proceeds issue_returns perform_finish_ok perform_finish_skip finish_ok
        simp del: issue.simps perform.simps(3))
qed

text \<open>
  Claim C7, amended: the statement on an English page with \<open>l1 = es\<close>, for \<open>l2 = ja\<close>
  (in the run where the second call is answered and completes first, and in the run
  where a listener issues it) and for \<open>l2 = es\<close> (the no-op).
\<close>

theorem C7_no_switching_state_witness:
  "isLanguageSupported ''es'' \<and> ''es'' \<noteq> currentLanguage example_page
   \<and> \<not> replaceState_throws example_page \<and> \<not> setItem_throws example_page
   \<and> isLanguageSupported ''ja'' \<and> ''ja'' \<noteq> ''es''
   \<and> fst (changeLanguage_begin ''ja'' (snd (changeLanguage_begin ''es'' example_page))) \<noteq> None
   \<and> fst (changeLanguage_begin ''es'' (snd (changeLanguage_begin ''es'' example_page))) = None
   \<and> map ev_language (dispatched (fst (run None
        [Call ''es'', Call ''ja'', Settle 1 (Json (Tree [])), Finish 1,
         Settle 0 NetworkFailure, Finish 0]
        (example_page, [])))) = [''ja'', ''ja'']
   \<and> map ev_language (dispatched (fst (run (Some ''ja'')
        (listener_run ''es'' NetworkFailure (Json (Tree []))) (example_page, []))))
       = [''es'', ''ja'']
   \<and> map ev_language (dispatched (fst (run (Some ''es'')
        (listener_run ''es'' NetworkFailure (Json (Tree []))) (example_page, []))))
       = [''es'']"
proof -
  have s: "isLanguageSupported ''es''" "isLanguageSupported ''ja''"
    by (simp_all add: isLanguageSupported_iff)
  have e: "currentLanguage example_page = ''en''" "dispatched example_page = []"
    "\<not> replaceState_throws example_page" "\<not> setItem_throws example_page"
    by (simp_all add: example_page_def)
  have p: "''es'' \<noteq> currentLanguage example_page" "''ja'' \<noteq> ''es''"
    by (simp_all add: e)
  note A = C7_no_switching_state [of "''es''" example_page "''ja''" NetworkFailure
      "Json (Tree [])", OF s(1) p(1) e(3) e(4)]
  note B = C7_no_switching_state [of "''es''" example_page "''es''" NetworkFailure
      "Json (Tree [])", OF s(1) p(1) e(3) e(4)]
  have m: "[Call ''es'', Call ''ja'', Settle 1 (Json (Tree [])), Finish 1,
            Settle 0 NetworkFailure, Finish 0]
           \<in> set (overlapping_runs ''es'' NetworkFailure ''ja'' (Json (Tree [])))"
    by (simp add: overlapping_runs_eq)
  from A [THEN conjunct1] s(2) p(2)
  have a1: "fst (changeLanguage_begin ''ja'' (snd (changeLanguage_begin ''es'' example_page)))
              \<noteq> None"
    by blast
  from B [THEN conjunct1]
  have b1: "fst (changeLanguage_begin ''es'' (snd (changeLanguage_begin ''es'' example_page)))
              = None"
    by blast
  from A [THEN conjunct2, THEN conjunct1] s(2) p(2)
  have a2: "\<forall>r \<in> set (overlapping_runs ''es'' NetworkFailure ''ja'' (Json (Tree []))).
              map ev_language (dispatched (fst (run None r (example_page, []))))
                = map ev_language (dispatched example_page) @ [''ja'', ''ja'']"
    and a3: "map ev_language (dispatched (fst (run (Some ''ja'')
                (listener_run ''es'' NetworkFailure (Json (Tree []))) (example_page, []))))
              = map ev_language (dispatched example_page) @ [''es'', ''ja'']"
    by blast+
  from B [THEN conjunct2, THEN conjunct2]
  have b3: "map ev_language (dispatched (fst (run (Some ''es'')
                (listener_run ''es'' NetworkFailure (Json (Tree []))) (example_page, []))))
              = map ev_language (dispatched example_page) @ [''es'']"
    by blast
  from a2 m
  have a2': "map ev_language (dispatched (fst (run None
        [Call ''es'', Call ''ja'', Settle 1 (Json (Tree [])), Finish 1,
         Settle 0 NetworkFailure, Finish 0]
        (example_page, [])))) = map ev_language (dispatched example_page) @ [''ja'', ''ja'']"
    by (rule bspec)
  show ?thesis
    using s p e a1 b1 a2' a3 b3 by (simp only: list.map append_Nil simp_thms)
qed

section \<open>Changing the language: the URL\<close>

lemma replace_first_prefix:
  "CHR ''$'' \<notin> set replacement \<Longrightarrow> pat \<noteq> [] \<Longrightarrow>
   replace_first pat replacement (pat @ rest) = replacement @ rest"
  by (cases pat) (simp_all add: replace_first_def get_substitution_plain)

lemma split_js_no_sep:
  "sep \<notin> set w \<Longrightarrow> split_js sep w = [w]"
  by (induction w) auto

lemma split_js_first:
  "sep \<notin> set w \<Longrightarrow> split_js sep (w @ sep # r) = w # split_js sep r"
  by (induction w) auto

lemma supported_chars: "isLanguageSupported l \<Longrightarrow> CHR ''/'' \<notin> set l \<and> CHR ''$'' \<notin> set l"
  by (auto simp: isLanguageSupported_iff)

lemma extract_prefixed:
  assumes "isLanguageSupported l" and "rest = [] \<or> (\<exists>r. rest = CHR ''/'' # r)"
  shows "extractLanguageFromPath (''/'' @ l @ rest) = Some l"
proof -
  from assms(1) have ns: "CHR ''/'' \<notin> set l" and ne: "l \<noteq> []" and len: "length l = 2"
    by (auto simp: supported_chars supported_nonempty supported_length)
  from assms(2) show ?thesis
  proof
    assume "rest = []"
    with ns ne len assms(1) show ?thesis
      by (simp add: extractLanguageFromPath_def path_segments_def split_js_no_sep)
  next
    assume "\<exists>r. rest = CHR ''/'' # r"
    then obtain r where "rest = CHR ''/'' # r" ..
    with ns ne len assms(1) show ?thesis
      by (simp add: extractLanguageFromPath_def path_segments_def split_js_first)
  qed
qed

lemma extract_none_spec:
  "extractLanguageFromPath p = None
     \<longleftrightarrow> \<not> (length (spec_first_segment p) = 2 \<and> isLanguageSupported (spec_first_segment p))"
  using find_path_candidate [of p]
  by (cases "extractLanguageFromPath p")
     (auto simp: extractLanguageFromPath_def split: list.splits if_splits dest: supported_nonempty)

lemma new_path_rewritten:
  assumes "isLanguageSupported (currentLanguage st)"
  shows "url_rewritten (currentLanguage st) (pathname st) (new_path st)"
  unfolding url_rewritten_def
proof (intro conjI allI impI)
  fix l rest
  assume h: "pathname st = ''/'' @ l @ rest \<and> isLanguageSupported l
            \<and> (rest = [] \<or> (\<exists>r. rest = CHR ''/'' # r))"
  then have ex: "extractLanguageFromPath (pathname st) = Some l"
    using extract_prefixed [of l rest] by simp
  have "replace_first (''/'' @ l) (''/'' @ currentLanguage st) ((''/'' @ l) @ rest)
          = (''/'' @ currentLanguage st) @ rest"
    using assms by (intro replace_first_prefix) (simp_all add: supported_chars)
  with h ex show "new_path st = ''/'' @ currentLanguage st @ rest"
    by (simp add: new_path_def)
next
  assume "\<not> (length (spec_first_segment (pathname st)) = 2
            \<and> isLanguageSupported (spec_first_segment (pathname st)))"
  then have "extractLanguageFromPath (pathname st) = None"
    by (simp add: extract_none_spec)
  then show "new_path st = (if currentLanguage st = defaultLanguage then pathname st
                 else ''/'' @ currentLanguage st @ pathname st)"
    by (simp add: new_path_def)
qed

text \<open>
  Claim C8, as stated, fails. On the path \<open>/fr/about\<close> with French current, the switch
  back to the default language does not remove the prefix: the path becomes
  \<open>/en/about\<close>.
\<close>

theorem C8_prefix_not_removed_counterexample:
  "pathname (snd (changeLanguage NotOk ''en''
                    (example_page\<lparr>currentLanguage := ''fr'', pathname := ''/fr/about''\<rparr>)))
     = ''/en/about''"
proof -
  let ?st = "example_page\<lparr>currentLanguage := ''fr'', pathname := ''/fr/about''\<rparr>"
  have "extractLanguageFromPath ''/fr/about'' = Some ''fr''"
    using extract_prefixed [of "''fr''" "''/about''"] by (simp add: isLanguageSupported_iff)
  moreover have "replace_first ''/fr'' ''/en'' ''/fr/about'' = ''/en/about''"
    using replace_first_prefix [of "''/en''" "''/fr''" "''/about''"] by simp
  ultimately have n: "new_path (?st\<lparr>currentLanguage := ''en''\<rparr>) = ''/en/about''"
    by (simp add: new_path_def)
  have f: "\<not> replaceState_throws ?st" "\<not> setItem_throws ?st" "''en'' \<noteq> currentLanguage ?st"
    "isLanguageSupported ''en''"
    by (simp_all add: example_page_def isLanguageSupported_iff)
  have "pathname (snd (changeLanguage NotOk ''en'' ?st)) = new_path (?st\<lparr>currentLanguage := ''en''\<rparr>)"
    unfolding change_proceeds [OF f(4) f(3)] using f(1,2) by (simp add: finish_ok loaded_new_path)
  with n show ?thesis by simp
qed

text \<open>
  Claim C8, amended. Where neither the URL rewrite nor the write of the preference
  throws, a call of \<open>changeLanguage\<close> that goes on after its load rewrites the path
  for the language that is current at that moment (\<open>this.currentLanguage\<close>, not the
  argument of the call), and that language is the requested one where the call runs
  with no other call in between. A supported language segment right after the
  leading slash is replaced by that language, also by the default one; where the
  first segment of the path is no supported language, that language is put in front
  if it is not the default, and the path is left as it is if it is the default. No
  prefix is ever removed.
\<close>

theorem C8_url_rewrite:
  assumes "\<not> replaceState_throws st" and "\<not> setItem_throws st"
  shows "(isLanguageSupported (currentLanguage st) \<longrightarrow>
            url_rewritten (currentLanguage st) (pathname st)
              (pathname (changeLanguage_finish previousLanguage language st)))
       \<and> (isLanguageSupported language \<and> language \<noteq> currentLanguage st \<longrightarrow>
            url_rewritten language (pathname st)
              (pathname (snd (changeLanguage outcome language st))))"
proof (intro conjI impI)
  assume "isLanguageSupported (currentLanguage st)"
  then show "url_rewritten (currentLanguage st) (pathname st)
              (pathname (changeLanguage_finish previousLanguage language st))"
    using assms by (simp add: finish_ok new_path_rewritten)
next
  assume a: "isLanguageSupported language \<and> language \<noteq> currentLanguage st"
  have "url_rewritten (currentLanguage (st\<lparr>currentLanguage := language\<rparr>))
          (pathname (st\<lparr>currentLanguage := language\<rparr>))
          (new_path (st\<lparr>currentLanguage := language\<rparr>))"
    by (rule new_path_rewritten) (use a in simp)
  then show "url_rewritten language (pathname st)
              (pathname (snd (changeLanguage outcome language st)))"
    using assms a by (simp add: change_proceeds finish_ok loaded_new_path)
qed


text \<open>
  Claim C8, amended: four runs on an English page. With \<open>changeLanguage('de')\<close> issued
  while \<open>changeLanguage('fr')\<close> waits for its fetch, the switch to French completes
  and writes \<open>/de/about\<close>. Alone, a switch from French to Spanish on \<open>/fr/about\<close> gives
  \<open>/es/about\<close>, a switch to French on \<open>/about\<close> gives \<open>/fr/about\<close>, and a switch to
  English on \<open>/about\<close> leaves the path.
\<close>

theorem C8_url_rewrite_witness:
  "\<not> replaceState_throws example_page \<and> \<not> setItem_throws example_page
   \<and> pathname (fst (run None [Call ''fr'', Call ''de'', Settle 0 NotOk, Finish 0]
                      (example_page, []))) = ''/de/about''
   \<and> pathname (snd (changeLanguage NotOk ''es''
                      (example_page\<lparr>currentLanguage := ''fr'', pathname := ''/fr/about''\<rparr>)))
       = ''/es/about''
   \<and> pathname (snd (changeLanguage NotOk ''fr'' example_page)) = ''/fr/about''
   \<and> pathname (snd (changeLanguage NotOk ''en'' (example_page\<lparr>currentLanguage := ''fr''\<rparr>)))
       = ''/about''"
proof -
  let ?mid = "load_settle ''fr'' NotOk
                (load_request ''de''
                  ((load_request ''fr'' (example_page\<lparr>currentLanguage := ''fr''\<rparr>))
                     \<lparr>currentLanguage := ''de''\<rparr>))"
  let ?on_fr = "example_page\<lparr>currentLanguage := ''fr'', pathname := ''/fr/about''\<rparr>"
  let ?fr = "example_page\<lparr>currentLanguage := ''fr''\<rparr>"
  have s: "isLanguageSupported ''fr''" "isLanguageSupported ''de''" "isLanguageSupported ''es''"
    "isLanguageSupported ''en''"
    by (simp_all add: isLanguageSupported_iff)
  have e: "currentLanguage example_page = ''en''" "pathname example_page = ''/about''"
    "\<not> replaceState_throws example_page" "\<not> setItem_throws example_page"
    by (simp_all add: example_page_def)
  have seg: "spec_first_segment ''/about'' = ''about''"
    by (simp add: spec_first_segment_def)
  have mid: "currentLanguage ?mid = ''de''" "pathname ?mid = ''/about''"
    "\<not> replaceState_throws ?mid" "\<not> setItem_throws ?mid"
    by (simp_all add: e)
  have r: "fst (run None [Call ''fr'', Call ''de'', Settle 0 NotOk, Finish 0] (example_page, []))
            = changeLanguage_finish ''en'' ''fr'' ?mid"
    using s e
    by (simp add: run_simps issue_proceeds perform_finish_ok del: issue.simps perform.simps(3))
  from C8_url_rewrite [of ?mid "''en''" "''fr''" NotOk, OF mid(3) mid(4)]
  have "url_rewritten ''de'' ''/about'' (pathname (changeLanguage_finish ''en'' ''fr'' ?mid))"
    using s by (simp only: mid simp_thms)
  then have w1: "pathname (changeLanguage_finish ''en'' ''fr'' ?mid) = ''/de/about''"
    by (simp add: url_rewritten_def seg defaultLanguage_def)
  from C8_url_rewrite [of ?on_fr "''fr''" "''es''" NotOk]
  have "url_rewritten ''es'' ''/fr/about'' (pathname (snd (changeLanguage NotOk ''es'' ?on_fr)))"
    using s e by simp
  then have "''/fr/about'' = ''/'' @ ''fr'' @ ''/about'' \<and> isLanguageSupported ''fr''
       \<and> (''/about'' = [] \<or> (\<exists>r. ''/about'' = CHR ''/'' # r))
     \<longrightarrow> pathname (snd (changeLanguage NotOk ''es'' ?on_fr)) = ''/'' @ ''es'' @ ''/about''"
    unfolding url_rewritten_def by blast
  then have w2: "pathname (snd (changeLanguage NotOk ''es'' ?on_fr)) = ''/es/about''"
    using s by simp
  from C8_url_rewrite [of example_page "''en''" "''fr''" NotOk, OF e(3) e(4)]
  have "url_rewritten ''fr'' ''/about'' (pathname (snd (changeLanguage NotOk ''fr'' example_page)))"
    using s by (simp add: e)
  then have w3: "pathname (snd (changeLanguage NotOk ''fr'' example_page)) = ''/fr/about''"
    by (simp add: url_rewritten_def seg defaultLanguage_def)
  from C8_url_rewrite [of ?fr "''fr''" "''en''" NotOk]
  have "url_rewritten ''en'' ''/about'' (pathname (snd (changeLanguage NotOk ''en'' ?fr)))"
    using s e by simp
  then have w4: "pathname (snd (changeLanguage NotOk ''en'' ?fr)) = ''/about''"
    by (simp add: url_rewritten_def seg defaultLanguage_def)
  from e(3) e(4) r w1 w2 w3 w4 show ?thesis by (simp only: simp_thms)
qed

section \<open>Interpolation\<close>

lemma star_source_invalid: "RegExp_new (placeholder_source ''*'') = Invalid"
  by (simp add: RegExp_new_def placeholder_source_def atom_at_def backslash_def escape_atom_def
      Let_def is_digit_def)

text \<open>
  Claim C4 says that \<open>t\<close> never throws, whatever the key and the interpolation map.
  The code puts the placeholder name into the source of a regular expression as it
  is: with a placeholder named \<open>*\<close> the source is \<open>{{\s**\s*}}\<close>, the constructor
  \<open>RegExp\<close> throws a \<open>SyntaxError\<close> (nothing to repeat), and so does \<open>t\<close>, for every
  key, every value and every further interpolation.
\<close>

theorem C4_t_throws:
  "t s key (Some ((''*'', v) # rest)) = Threw SyntaxError"
  by (simp add: t_def star_source_invalid)

lemma resolve_examples:
  "resolve_text example_engine ''greeting'' = ''Hola {{ name }}, {{unknown}}''"
  "resolve_text example_engine ''welcome'' = ''Hi {{user.name}} ({{user_name}})''"
  by (simp_all add: resolve_text_def getTranslation_def ex_tables defaultLanguage_def)

lemma name_source:
  "RegExp_new (placeholder_source ''name'') = Compiled
  [(Lit CHR ''{'', Once), (Lit CHR ''{'', Once), (Space, Star True),
   (Lit CHR ''n'', Once), (Lit CHR ''a'', Once), (Lit CHR ''m'', Once),
   (Lit CHR ''e'', Once), (Space, Star True), (Lit CHR ''}'', Once),
   (Lit CHR ''}'', Once)]"
  by (simp add: RegExp_new_def placeholder_source_def atom_at_def backslash_def escape_atom_def
      Let_def is_digit_def)

lemma dotted_source:
  "RegExp_new (placeholder_source ''user.name'') = Compiled
  [(Lit CHR ''{'', Once), (Lit CHR ''{'', Once), (Space, Star True),
   (Lit CHR ''u'', Once), (Lit CHR ''s'', Once), (Lit CHR ''e'', Once), (Lit CHR ''r'', Once),
   (AnyChar, Once),
   (Lit CHR ''n'', Once), (Lit CHR ''a'', Once), (Lit CHR ''m'', Once),
   (Lit CHR ''e'', Once), (Space, Star True), (Lit CHR ''}'', Once),
   (Lit CHR ''}'', Once)]"
  by (simp add: RegExp_new_def placeholder_source_def atom_at_def backslash_def escape_atom_def
      Let_def is_digit_def)

text \<open>
  Claim C9 says that a placeholder is replaced by the value of the interpolation of
  its name and that a placeholder without one is left as it is. The code takes the
  name as a regular expression and the value as a replacement pattern. With the
  interpolation \<open>user.name\<close> the dot matches any character, so the placeholder
  \<open>{{user_name}}\<close>, which has no interpolation, is replaced too; and the value \<open>$&\<close>
  puts the placeholder back in place of the value.
\<close>

theorem C9_t_substitution_defects:
  "t example_engine ''welcome'' (Some [(''user.name'', ''Ava'')]) = Returned ''Hi Ava (Ava)''
   \<and> t example_engine ''greeting'' (Some [(''name'', ''$&'')])
       = Returned ''Hola {{ name }}, {{unknown}}''"
  by (simp add: t_def resolve_examples name_source dotted_source replace_all_def is_space_def)

text \<open>
  The example of the specification: a name and a value of plain characters, white
  space inside the braces, and a placeholder without interpolation.
\<close>

lemma t_spec_example:
  "t example_engine ''greeting'' (Some [(''name'', ''Ava'')]) = Returned ''Hola Ava, {{unknown}}''"
  by (simp add: t_def resolve_examples name_source replace_all_def is_space_def)

section \<open>Interpolation: placeholder names of plain characters\<close>

text \<open>
  For a placeholder name of plain characters the regular expression is the one meant:
  the constructor accepts it, and it matches the name between double braces, with
  optional white space on both sides, and nothing else.
\<close>

subsection \<open>The parser\<close>

lemma plain_char_iff:
  "plain_char c \<longleftrightarrow>
     c \<noteq> CHR ''^'' \<and> c \<noteq> CHR ''$'' \<and> c \<noteq> CHR ''.'' \<and> c \<noteq> CHR ''*'' \<and> c \<noteq> CHR ''+''
     \<and> c \<noteq> CHR ''?'' \<and> c \<noteq> CHR ''('' \<and> c \<noteq> CHR '')'' \<and> c \<noteq> CHR ''['' \<and> c \<noteq> CHR '']''
     \<and> c \<noteq> CHR ''{'' \<and> c \<noteq> CHR ''}'' \<and> c \<noteq> CHR ''|'' \<and> c \<noteq> CHR 0x5C \<and> \<not> is_space c"
  by (simp add: plain_char_def backslash_def)

lemma atom_at_plain: "plain_char c \<Longrightarrow> atom_at c cs = (Inr (Lit c), 0)"
  by (simp add: atom_at_def plain_char_iff backslash_def)

lemma take_quant_plain: "plain_char c \<Longrightarrow> take_quant (c # cs) = Some (Once, 0)"
  by (simp add: plain_char_iff Let_def)

lemma take_quant_backslash: "take_quant (backslash # cs) = Some (Once, 0)"
  by (simp add: backslash_def Let_def)

lemma parse_plain:
  "list_all plain_char cs \<Longrightarrow>
   parse_terms (cs @ backslash # r) =
     (case parse_terms (backslash # r) of
        Compiled ts \<Rightarrow> Compiled (map (\<lambda>c. (Lit c, Once)) cs @ ts)
      | Invalid \<Rightarrow> Invalid | Beyond \<Rightarrow> Beyond)"
proof (induction cs)
  case Nil
  show ?case by (cases "parse_terms (backslash # r)") simp_all
next
  case (Cons c cs)
  then have c: "plain_char c" and cs: "list_all plain_char cs" by simp_all
  have q: "take_quant (cs @ backslash # r) = Some (Once, 0)"
  proof (cases cs)
    case Nil
    then show ?thesis by (simp add: backslash_def Let_def)
  next
    case (Cons d ds)
    with cs show ?thesis using take_quant_plain [of d "ds @ backslash # r"] by simp
  qed
  show ?case
    using Cons.IH [OF cs] c q
    by (simp add: atom_at_plain split: regexp.splits)
qed

lemma parse_suffix:
  "parse_terms (backslash # ''s*}}'') = Compiled [(Space, Star True), (Lit CHR ''}'', Once), (Lit CHR ''}'', Once)]"
  by (simp add: atom_at_def backslash_def escape_atom_def Let_def is_digit_def)

lemma RegExp_plain:
  assumes "plain_name n"
  shows "RegExp_new (placeholder_source n) = Compiled (placeholder_terms n)"
proof -
  from assms have p: "list_all plain_char n" and "n \<noteq> []" by (simp_all add: plain_name_def)
  then obtain d ds where n: "n = d # ds" by (cases n) auto
  with p have d: "d \<noteq> CHR ''?''" by (simp add: plain_char_iff)
  have mid: "parse_terms (n @ backslash # ''s*}}'')
      = Compiled (map (\<lambda>c. (Lit c, Once)) n @ [(Space, Star True), (Lit CHR ''}'', Once), (Lit CHR ''}'', Once)])"
    unfolding parse_plain [OF p] parse_suffix by simp
  have "parse_terms (''{{'' @ [backslash] @ ''s*'' @ n @ [backslash] @ ''s*}}'')
      = Compiled (placeholder_terms n)"
    using mid d unfolding n
    by (simp add: atom_at_def escape_atom_def Let_def is_digit_def placeholder_terms_def backslash_def
        del: parse_terms.simps(2) add: parse_terms.simps(2) [of "CHR ''{''"] parse_terms.simps(2) [of "CHR 0x5C"])
  then show ?thesis by (simp add: RegExp_new_def placeholder_source_def)
qed

subsection \<open>The matcher\<close>

lemma rmatch_lits:
  "rmatch (map (\<lambda>c. (Lit c, Once)) n @ ts) s
     = (if take (length n) s = n then rmatch ts (drop (length n) s) else None)"
proof (induction n arbitrary: s)
  case Nil
  show ?case by simp
next
  case (Cons c n)
  show ?case by (cases s) (auto simp: Cons.IH)
qed

lemma rmatch_star_skip:
  "list_all is_space ws \<Longrightarrow> \<not> is_space c \<Longrightarrow>
   rmatch ((Space, Star True) # (Lit c, Once) # ts) (ws @ s)
     = rmatch ((Space, Star True) # (Lit c, Once) # ts) s"
proof (induction ws)
  case Nil
  show ?case by simp
next
  case (Cons w ws)
  then have w: "is_space w" and ws: "list_all is_space ws" by simp_all
  with Cons.prems(2) have "w \<noteq> c" by auto
  with w Cons.IH [OF ws Cons.prems(2)] show ?case
    by (simp split: option.splits)
qed

lemma rmatch_star_nonspace:
  "\<not> is_space c \<Longrightarrow> rmatch ((Space, Star True) # ts) (c # cs) = rmatch ts (c # cs)"
  by simp

lemma first_brace_needed:
  "c \<noteq> CHR ''{'' \<Longrightarrow> rmatch (placeholder_terms n) (c # cs) = None"
  by (simp add: placeholder_terms_def)

lemma placeholder_no_match_empty: "rmatch (placeholder_terms n) [] = None"
  by (simp add: placeholder_terms_def)

lemma placeholder_prefix:
  "rmatch (placeholder_terms n) (''{{'' @ s)
     = rmatch ((Space, Star True) # map (\<lambda>c. (Lit c, Once)) n
               @ [(Space, Star True), (Lit CHR ''}'', Once), (Lit CHR ''}'', Once)]) s"
  by (simp add: placeholder_terms_def)

lemma tail_match:
  "list_all is_space ws \<Longrightarrow>
   rmatch [(Space, Star True), (Lit CHR ''}'', Once), (Lit CHR ''}'', Once)] (ws @ ''}}'' @ post)
     = Some post"
  using rmatch_star_skip [of ws "CHR ''}''" "[(Lit CHR ''}'', Once)]" "''}}'' @ post"]
  by (simp add: is_space_def)

lemma plain_name_cons:
  assumes "plain_name n"
  obtains d ds where "n = d # ds" "plain_char d" "list_all plain_char ds" "\<not> is_space d"
  using assms by (cases n) (auto simp: plain_name_def plain_char_iff)

lemma placeholder_match:
  assumes "plain_name n" and "list_all is_space ws1" and "list_all is_space ws2"
  shows "rmatch (placeholder_terms n) (''{{'' @ ws1 @ n @ ws2 @ ''}}'' @ post) = Some post"
proof -
  from assms(1) obtain d ds where n: "n = d # ds" and d: "\<not> is_space d"
    by (rule plain_name_cons)
  let ?tail = "[(Space, Star True), (Lit CHR ''}'', Once), (Lit CHR ''}'', Once)]"
  have "rmatch (placeholder_terms n) (''{{'' @ ws1 @ n @ ws2 @ ''}}'' @ post)
      = rmatch ((Space, Star True) # (Lit d, Once) # map (\<lambda>c. (Lit c, Once)) ds @ ?tail)
          (ws1 @ n @ ws2 @ ''}}'' @ post)"
    unfolding placeholder_prefix by (simp add: n)
  also have "\<dots> = rmatch ((Space, Star True) # (Lit d, Once) # map (\<lambda>c. (Lit c, Once)) ds @ ?tail)
          (n @ ws2 @ ''}}'' @ post)"
    by (rule rmatch_star_skip [OF assms(2) d])
  also have "\<dots> = rmatch (map (\<lambda>c. (Lit c, Once)) n @ ?tail) (n @ ws2 @ ''}}'' @ post)"
    using d by (simp add: n)
  also have "\<dots> = rmatch ?tail (ws2 @ ''}}'' @ post)"
    unfolding rmatch_lits by simp
  also have "\<dots> = Some post"
    by (rule tail_match [OF assms(3)])
  finally show ?thesis .
qed

lemma tail_no_match:
  "plain_char e \<Longrightarrow>
   rmatch [(Space, Star True), (Lit CHR ''}'', Once), (Lit CHR ''}'', Once)] (e # s) = None"
  by (simp add: plain_char_iff)

lemma other_placeholder_no_match:
  assumes n: "plain_name n" and m: "plain_name m" and neq: "m \<noteq> n"
    and ws1: "list_all is_space ws1" and ws2: "list_all is_space ws2"
  shows "rmatch (placeholder_terms n) (''{{'' @ ws1 @ m @ ws2 @ ''}}'' @ post) = None"
proof -
  from n obtain d ds where nd: "n = d # ds" and d: "\<not> is_space d"
    by (rule plain_name_cons)
  from m obtain e es where me: "m = e # es" and e: "\<not> is_space e"
    by (rule plain_name_cons)
  from n have pn: "list_all plain_char n" by (simp add: plain_name_def)
  from m have pm: "list_all plain_char m" by (simp add: plain_name_def)
  let ?tail = "[(Space, Star True), (Lit CHR ''}'', Once), (Lit CHR ''}'', Once)]"
  let ?rest = "ws2 @ ''}}'' @ post"
  have "rmatch (placeholder_terms n) (''{{'' @ ws1 @ m @ ?rest)
      = rmatch ((Space, Star True) # (Lit d, Once) # map (\<lambda>c. (Lit c, Once)) ds @ ?tail)
          (ws1 @ m @ ?rest)"
    unfolding placeholder_prefix by (simp add: nd)
  also have "\<dots> = rmatch ((Space, Star True) # (Lit d, Once) # map (\<lambda>c. (Lit c, Once)) ds @ ?tail)
          (m @ ?rest)"
    by (rule rmatch_star_skip [OF ws1 d])
  also have "\<dots> = rmatch (map (\<lambda>c. (Lit c, Once)) n @ ?tail) (m @ ?rest)"
    using e by (simp add: nd me)
  also have "\<dots> = None"
  proof (cases "take (length n) (m @ ?rest) = n")
    case False
    then show ?thesis unfolding rmatch_lits by simp
  next
    case True
    have not_plain: "\<not> plain_char (hd ?rest)"
      by (cases ws2) (use ws2 in \<open>auto simp: plain_char_iff\<close>)
    have rest_ne: "?rest \<noteq> []" by simp
    show ?thesis
    proof (cases "length n \<le> length m")
      case le: True
      with True have nm: "n = take (length n) m" by simp
      with neq have lt: "length n < length m"
        using le by (metis le_neq_implies_less take_all order_refl)
      then obtain x xs where dr: "drop (length n) m = x # xs"
        by (cases "drop (length n) m") auto
      then have "x \<in> set m" by (metis in_set_dropD list.set_intros(1))
      with pm have "plain_char x" by (simp add: list_all_iff)
      with True le dr show ?thesis
        unfolding rmatch_lits by (simp add: tail_no_match del: rmatch.simps)
    next
      case False
      then have gt: "length m < length n" by simp
      from True have "n ! length m = (m @ ?rest) ! length m"
        using gt by (metis nth_take)
      also have "\<dots> = hd ?rest"
        using rest_ne by (simp add: nth_append hd_conv_nth)
      finally have "hd ?rest \<in> set n" using gt by (metis nth_mem)
      with pn have "plain_char (hd ?rest)" by (simp add: list_all_iff)
      with not_plain show ?thesis by simp
    qed
  qed
  finally show ?thesis .
qed

subsection \<open>Global replacement\<close>

text \<open>
  Two facts about \<open>replace_from\<close> for any pattern: text in which no match starts is
  copied, and a match at the current position is replaced by its substitution. With
  no \<open>$\<close> in the replacement, the text already passed does not matter.
\<close>

lemma replace_from_skip:
  "(\<And>k. k < length skipped \<Longrightarrow> rmatch ts (drop k (skipped @ s)) = None) \<Longrightarrow>
   replace_from ts v pre (skipped @ s) = skipped @ replace_from ts v (pre @ skipped) s"
proof (induction skipped arbitrary: pre)
  case Nil
  show ?case by simp
next
  case (Cons c cs)
  from Cons.prems [of 0] have none: "rmatch ts (c # cs @ s) = None" by simp
  have "\<And>k. k < length cs \<Longrightarrow> rmatch ts (drop k (cs @ s)) = None"
    using Cons.prems [of "Suc k" for k] by simp
  from Cons.IH [OF this, of "pre @ [c]"] none show ?case by simp
qed

lemma replace_from_match:
  assumes "rmatch ts (matched @ post) = Some post" and "matched \<noteq> []"
  shows "replace_from ts v pre (matched @ post)
           = get_substitution matched pre post v @ replace_from ts v (pre @ matched) post"
proof -
  from assms(2) obtain c cs where m: "matched = c # cs" by (cases matched) auto
  have len: "Suc (length (cs @ post)) - length post = Suc (length cs)" by simp
  show ?thesis
    using assms(1) unfolding m
    by (simp add: Let_def del: rmatch.simps)
qed

lemma replace_from_pre:
  "CHR ''$'' \<notin> set v \<Longrightarrow> replace_from ts v pre s = replace_from ts v pre' s"
proof (induction "length s" arbitrary: s pre pre' rule: less_induct)
  case less
  show ?case
  proof (cases s)
    case Nil
    with less.prems show ?thesis by (simp add: get_substitution_plain split: option.splits)
  next
    case (Cons c cs)
    have a: "replace_from ts v (pre @ [c]) cs = replace_from ts v (pre' @ [c]) cs"
      using less.hyps [of cs] less.prems Cons by simp
    have b: "\<And>n. replace_from ts v (pre @ take n (c # cs)) (drop (n - 1) cs)
                  = replace_from ts v (pre' @ take n (c # cs)) (drop (n - 1) cs)"
      using less.hyps [of "drop (n - 1) cs" for n] less.prems Cons by simp
    show ?thesis
      unfolding Cons replace_from.simps
      by (simp only: a b get_substitution_plain [OF less.prems])
  qed
qed

subsection \<open>Placeholders\<close>

text \<open>
  With a plain name and a replacement without \<open>$\<close>: text without an opening brace
  is kept, the placeholder of the name is replaced by the value, and the placeholder
  of another plain name is kept.
\<close>

lemma no_brace_no_match:
  "CHR ''{'' \<notin> set skipped \<Longrightarrow> k < length skipped \<Longrightarrow>
   rmatch (placeholder_terms n) (drop k (skipped @ s)) = None"
proof -
  assume a: "CHR ''{'' \<notin> set skipped" and k: "k < length skipped"
  then have "drop k (skipped @ s) = skipped ! k # drop (Suc k) (skipped @ s)"
    by (simp add: Cons_nth_drop_Suc nth_append)
  moreover from a k have "skipped ! k \<noteq> CHR ''{''" by (metis nth_mem)
  ultimately show ?thesis by (simp add: first_brace_needed del: rmatch.simps)
qed

lemma keep_plain_text:
  assumes "CHR ''{'' \<notin> set s"
  shows "replace_all (placeholder_terms n) v s = s"
proof -
  have "replace_from (placeholder_terms n) v [] (s @ []) = s @ replace_from (placeholder_terms n) v ([] @ s) []"
    by (rule replace_from_skip) (rule no_brace_no_match [OF assms])
  then show ?thesis by (simp add: replace_all_def placeholder_no_match_empty)
qed

lemma replace_placeholder:
  assumes n: "plain_name n" and ws: "list_all is_space ws1" "list_all is_space ws2"
    and before: "CHR ''{'' \<notin> set before" and v: "CHR ''$'' \<notin> set v"
  shows "replace_all (placeholder_terms n) v (before @ ''{{'' @ ws1 @ n @ ws2 @ ''}}'' @ post)
           = before @ v @ replace_all (placeholder_terms n) v post"
proof -
  let ?ts = "placeholder_terms n"
  let ?ph = "''{{'' @ ws1 @ n @ ws2 @ ''}}''"
  have m: "rmatch ?ts (?ph @ post) = Some post"
    using placeholder_match [OF n ws, of post] by (simp del: rmatch.simps)
  have "replace_from ?ts v [] (before @ ?ph @ post) = before @ replace_from ?ts v ([] @ before) (?ph @ post)"
    by (rule replace_from_skip) (rule no_brace_no_match [OF before])
  also have "replace_from ?ts v ([] @ before) (?ph @ post)
      = get_substitution ?ph ([] @ before) post v @ replace_from ?ts v (([] @ before) @ ?ph) post"
    by (rule replace_from_match [OF m]) simp
  also have "\<dots> = v @ replace_from ?ts v [] post"
    using replace_from_pre [OF v, of ?ts "([] @ before) @ ?ph" post "[]"]
    by (simp only: get_substitution_plain [OF v])
  finally show ?thesis by (simp add: replace_all_def del: replace_from.simps rmatch.simps)
qed

lemma space_not_brace: "list_all is_space ws \<Longrightarrow> CHR ''{'' \<notin> set ws"
  by (induction ws) (auto simp: is_space_def)

lemma plain_not_brace: "list_all plain_char m \<Longrightarrow> CHR ''{'' \<notin> set m"
  by (induction m) (auto simp: plain_char_iff)

lemma keep_other_placeholder:
  assumes n: "plain_name n" and m: "plain_name m" and neq: "m \<noteq> n"
    and ws: "list_all is_space ws1" "list_all is_space ws2"
    and before: "CHR ''{'' \<notin> set before" and v: "CHR ''$'' \<notin> set v"
  shows "replace_all (placeholder_terms n) v (before @ ''{{'' @ ws1 @ m @ ws2 @ ''}}'' @ post)
           = before @ ''{{'' @ ws1 @ m @ ws2 @ ''}}'' @ replace_all (placeholder_terms n) v post"
proof -
  let ?ts = "placeholder_terms n"
  let ?inner = "ws1 @ m @ ws2 @ ''}}''"
  from m have pm: "list_all plain_char m" and mne: "m \<noteq> []" by (simp_all add: plain_name_def)
  have inner: "CHR ''{'' \<notin> set ?inner"
    using space_not_brace [OF ws(1)] space_not_brace [OF ws(2)] plain_not_brace [OF pm] by simp
  have inner_ne: "?inner \<noteq> []" by simp
  have k0: "rmatch ?ts (''{{'' @ ?inner @ post) = None"
    using other_placeholder_no_match [OF n m neq ws, of post] by (simp del: rmatch.simps)
  have k1: "rmatch ?ts (''{'' @ ?inner @ post) = None"
  proof -
    obtain x xs where x: "?inner @ post = x # xs" using inner_ne by (cases "?inner @ post") auto
    then have "x = hd ?inner" using inner_ne by (metis hd_append2 list.sel(1))
    with inner inner_ne have "x \<noteq> CHR ''{''" by (metis hd_in_set)
    then show ?thesis
      unfolding append_Cons append_Nil x by (simp add: placeholder_terms_def)
  qed
  have s0: "replace_from ?ts v pre (''{'' @ (''{'' @ ?inner @ post))
         = ''{'' @ replace_from ?ts v (pre @ ''{'') (''{'' @ ?inner @ post)" for pre
    by (rule replace_from_skip) (use k0 in \<open>simp del: replace_from.simps rmatch.simps\<close>)
  have s1: "replace_from ?ts v pre (''{'' @ (?inner @ post))
         = ''{'' @ replace_from ?ts v (pre @ ''{'') (?inner @ post)" for pre
    by (rule replace_from_skip) (use k1 in \<open>simp del: replace_from.simps rmatch.simps\<close>)
  have s2: "replace_from ?ts v pre (?inner @ post)
         = ?inner @ replace_from ?ts v (pre @ ?inner) post" for pre
    by (rule replace_from_skip) (rule no_brace_no_match [OF inner])
  have "replace_from ?ts v [] (before @ (''{{'' @ ?inner @ post))
      = before @ replace_from ?ts v ([] @ before) (''{{'' @ ?inner @ post)"
    by (rule replace_from_skip) (rule no_brace_no_match [OF before])
  also have "replace_from ?ts v ([] @ before) (''{{'' @ ?inner @ post)
      = ''{{'' @ ?inner @ replace_from ?ts v ((([] @ before) @ ''{'') @ ''{'' @ ?inner) post"
    using s0 [of "[] @ before"] s1 [of "([] @ before) @ ''{''"] s2 [of "(([] @ before) @ ''{'') @ ''{''"]
    by (simp del: replace_from.simps rmatch.simps)
  also have "replace_from ?ts v ((([] @ before) @ ''{'') @ ''{'' @ ?inner) post
      = replace_from ?ts v [] post"
    by (rule replace_from_pre [OF v])
  finally show ?thesis by (simp add: replace_all_def del: replace_from.simps rmatch.simps)
qed

lemma interpolate_plain:
  "plain_name n \<Longrightarrow>
   interpolate ((n, v) # rest) template
     = interpolate rest (replace_all (placeholder_terms n) v template)"
  by (simp add: RegExp_plain)

lemma interpolate_plain_returns:
  "list_all (\<lambda>p. plain_name (fst p)) pairs \<Longrightarrow> \<exists>str. interpolate pairs template = Returned str"
proof (induction pairs arbitrary: template)
  case Nil
  show ?case by simp
next
  case (Cons p pairs)
  obtain n v where p: "p = (n, v)" by (cases p)
  with Cons.prems have "plain_name n" "list_all (\<lambda>p. plain_name (fst p)) pairs" by simp_all
  with Cons.IH p show ?case by (simp add: RegExp_plain)
qed

text \<open>
  With plain names only, \<open>t\<close> returns a string; with one plain name it returns the
  resolved text with the placeholders of that name replaced.
\<close>

lemma t_plain_returns:
  "list_all (\<lambda>p. plain_name (fst p)) pairs \<Longrightarrow> \<exists>str. t s key (Some pairs) = Returned str"
  by (simp add: t_def interpolate_plain_returns)

lemma t_single_plain:
  "plain_name n \<Longrightarrow>
   t s key (Some [(n, v)]) = Returned (replace_all (placeholder_terms n) v (resolve_text s key))"
  by (simp add: t_def interpolate_plain del: interpolate.simps(2))

end
